theory Spec2Isabelle
  imports Complex_Main
begin

section \<open>Python values, faults and renderings\<close>

text \<open>
  The model follows \<^verbatim>\<open>agents/xagent/tools/safety_wrapper.py\<close>, class
  \<^verbatim>\<open>ToolSafetyWrapper\<close>.

  A fault is a raised Python exception. The wrapper catches with
  \<^verbatim>\<open>except Exception\<close>, so a fault carries whether it is an instance of
  \<^verbatim>\<open>Exception\<close> (\<^verbatim>\<open>KeyboardInterrupt\<close> and \<^verbatim>\<open>SystemExit\<close> are not). The wrapper
  describes a fault it caught with \<^verbatim>\<open>str(e)\<close> and with \<^verbatim>\<open>f"{e}"\<close>, that is
  \<^verbatim>\<open>format(e, '')\<close>; either is a call of a method of the exception and may itself
  raise, so a fault also carries what each of the two does: return a string, or raise a
  further fault.
\<close>

datatype pyexn =
  PyExn (is_Exception: bool) (exn_str: "pyexn + string") (exn_format: "pyexn + string")

text \<open>
  An instance of \<^verbatim>\<open>Exception\<close> built from a message, as \<^verbatim>\<open>ValueError("boom")\<close> is:
  \<^verbatim>\<open>str\<close> and \<^verbatim>\<open>format\<close> return the message. \<open>base_exception\<close> is the same outside
  class \<^verbatim>\<open>Exception\<close>.
\<close>

definition exception :: "string \<Rightarrow> pyexn" where
  "exception m = PyExn True (Inr m) (Inr m)"

definition base_exception :: "string \<Rightarrow> pyexn" where
  "base_exception m = PyExn False (Inr m) (Inr m)"

text \<open>
  The values that arguments and results range over: integers, strings, \<^verbatim>\<open>None\<close>,
  and any other object, given by what \<^verbatim>\<open>str()\<close>, \<^verbatim>\<open>repr()\<close> and
  \<^verbatim>\<open>format(_, '')\<close> do on it, in this order (return a string, or raise). Strings are
  sequences of code points below 256. The interpreter's limit on the number of digits of
  an integer's rendering is taken to be off.
\<close>

datatype pyval =
    PyInt int
  | PyStr string
  | PyNone
  | PyObj "pyexn + string" "pyexn + string" "pyexn + string"

text \<open>\<^verbatim>\<open>str(n)\<close> of an integer: decimal digits, a minus sign for negatives.\<close>

function str_digits :: "int \<Rightarrow> string" where
  "str_digits n =
     (if n < 10 then [''0123456789'' ! nat n]
      else str_digits (n div 10) @ [''0123456789'' ! nat (n mod 10)])"
  by pat_completeness auto
termination
  by (relation "measure nat") auto

declare str_digits.simps [simp del]

definition py_str_int :: "int \<Rightarrow> string" where
  "py_str_int i = (if i < 0 then CHR ''-'' # str_digits (- i) else str_digits i)"

text \<open>
  \<^verbatim>\<open>repr(s)\<close> of a string: single quotes unless the string has a single quote and
  no double quote; the chosen quote and the backslash are escaped, tab, newline and
  carriage return are written \<^verbatim>\<open>\t \n \r\<close>, and the other code points that are not
  printable are written \<^verbatim>\<open>\xhh\<close>.
\<close>

definition py_printable :: "char \<Rightarrow> bool" where
  "py_printable c =
     (let n = (of_char c :: nat)
      in (32 \<le> n \<and> n < 127) \<or> (160 < n \<and> n \<noteq> 173))"

definition hex2 :: "char \<Rightarrow> string" where
  "hex2 c =
     (let n = (of_char c :: nat)
      in [''0123456789abcdef'' ! (n div 16), ''0123456789abcdef'' ! (n mod 16)])"

definition repr_char :: "char \<Rightarrow> char \<Rightarrow> string" where
  "repr_char quote c =
     (if c = quote \<or> c = CHR 0x5C then [CHR 0x5C, c]
      else if c = CHR 0x09 then [CHR 0x5C, CHR ''t'']
      else if c = CHR 0x0A then [CHR 0x5C, CHR ''n'']
      else if c = CHR 0x0D then [CHR 0x5C, CHR ''r'']
      else if py_printable c then [c]
      else [CHR 0x5C, CHR ''x''] @ hex2 c)"

definition py_repr_str :: "string \<Rightarrow> string" where
  "py_repr_str s =
     (let quote = (if CHR 0x27 \<in> set s \<and> CHR 0x22 \<notin> set s then CHR 0x22 else CHR 0x27)
      in [quote] @ concat (map (repr_char quote) s) @ [quote])"

fun py_str :: "pyval \<Rightarrow> pyexn + string" where
  "py_str (PyInt i) = Inr (py_str_int i)"
| "py_str (PyStr s) = Inr s"
| "py_str PyNone = Inr ''None''"
| "py_str (PyObj s r f) = s"

fun py_repr :: "pyval \<Rightarrow> pyexn + string" where
  "py_repr (PyInt i) = Inr (py_str_int i)"
| "py_repr (PyStr s) = Inr (py_repr_str s)"
| "py_repr PyNone = Inr ''None''"
| "py_repr (PyObj s r f) = r"

text \<open>\<^verbatim>\<open>format(v, '')\<close>, which is what \<^verbatim>\<open>f"{v}"\<close> evaluates.\<close>

fun py_format :: "pyval \<Rightarrow> pyexn + string" where
  "py_format (PyInt i) = Inr (py_str_int i)"
| "py_format (PyStr s) = Inr s"
| "py_format PyNone = Inr ''None''"
| "py_format (PyObj s r f) = f"

text \<open>
  The \<^verbatim>\<open>repr\<close> of each element in turn; the first fault ends the rendering, as the
  exception would.
\<close>

fun repr_all :: "pyval list \<Rightarrow> pyexn + string list" where
  "repr_all [] = Inr []"
| "repr_all (v # vs) =
     (case py_repr v of
        Inl e \<Rightarrow> Inl e
      | Inr r \<Rightarrow> (case repr_all vs of Inl e \<Rightarrow> Inl e | Inr rs \<Rightarrow> Inr (r # rs)))"

fun join :: "string \<Rightarrow> string list \<Rightarrow> string" where
  "join sep [] = []"
| "join sep [x] = x"
| "join sep (x # y # ys) = x @ sep @ join sep (y # ys)"

text \<open>\<^verbatim>\<open>str(args)\<close> of the tuple of positional arguments.\<close>

definition str_tuple :: "pyval list \<Rightarrow> pyexn + string" where
  "str_tuple args =
     (case repr_all args of
        Inl e \<Rightarrow> Inl e
      | Inr rs \<Rightarrow>
          Inr (if length rs = 1 then ''('' @ hd rs @ '',)''
               else ''('' @ join '', '' rs @ '')''))"

text \<open>
  \<^verbatim>\<open>str(kwargs)\<close> of the keyword arguments, a dict from names to values in the
  order of the call. The names of one call are distinct, so the association list has
  one pair for each entry of the dict.
\<close>

type_synonym kwargs = "(string \<times> pyval) list"

definition str_dict :: "kwargs \<Rightarrow> pyexn + string" where
  "str_dict kw =
     (case repr_all (map snd kw) of
        Inl e \<Rightarrow> Inl e
      | Inr rs \<Rightarrow>
          Inr (''{'' @ join '', '' (map (\<lambda>(k, r). py_repr_str k @ '': '' @ r) (zip (map fst kw) rs))
               @ ''}''))"

text \<open>
  \<^verbatim>\<open>str(args) + str(kwargs)\<close>, left operand first. A tuple and a dict format as they
  render, so \<^verbatim>\<open>f"Args: {args}, Kwargs: {kwargs}"\<close> raises when this does, and the same
  fault.
\<close>

definition str_call :: "pyval list \<Rightarrow> kwargs \<Rightarrow> pyexn + string" where
  "str_call args kw =
     (case str_tuple args of
        Inl e \<Rightarrow> Inl e
      | Inr a \<Rightarrow> (case str_dict kw of Inl e \<Rightarrow> Inl e | Inr k \<Rightarrow> Inr (a @ k)))"

text \<open>\<^verbatim>\<open>pattern in input_str\<close>: the pattern occurs as a contiguous substring.\<close>

fun py_in :: "string \<Rightarrow> string \<Rightarrow> bool" where
  "py_in p [] = (p = [])"
| "py_in p (c # cs) = (take (length p) (c # cs) = p \<or> py_in p cs)"

text \<open>
  \<^verbatim>\<open>xs[i:]\<close>: a negative start counts from the end and stops at the front of the
  list; \<^verbatim>\<open>-0\<close> is \<^verbatim>\<open>0\<close>, so \<^verbatim>\<open>xs[-0:]\<close> is the whole list.
\<close>

definition py_slice_from :: "int \<Rightarrow> 'a list \<Rightarrow> 'a list" where
  "py_slice_from i xs =
     (if i < 0 then drop (nat (int (length xs) + i)) xs else drop (nat i) xs)"

text \<open>\<^verbatim>\<open>int(x)\<close> of a float: truncation towards zero.\<close>

definition py_int :: "rat \<Rightarrow> int" where
  "py_int x = (if 0 \<le> x then \<lfloor>x\<rfloor> else \<lceil>x\<rceil>)"

section \<open>The wrapper's state\<close>

text \<open>
  Clock readings and durations are Python floats; they are modelled as rationals, and
  the rounding of float arithmetic is not modelled.
\<close>

record execution_record =
  er_id :: string
  er_tool_name :: string
  er_success :: bool
  er_execution_time :: rat
  er_timestamp :: rat
  er_result :: string

datatype log_level = INFO | DEBUG | WARNING | ERROR

text \<open>
  \<open>logger\<close> tells whether \<^verbatim>\<open>self.logger\<close> is a logger or \<^verbatim>\<open>None\<close>. \<open>log_lines\<close> has
  one entry for each call made to the logger, oldest first; the text of a line is not
  kept, but building it evaluates the renderings it interpolates, which may raise.
\<close>

record wrapper =
  logger :: bool
  execution_history :: "execution_record list"
  max_execution_time :: int
  max_memory_usage :: int
  log_lines :: "log_level list"

definition init :: "bool \<Rightarrow> wrapper" where
  "init enable_logging =
     \<lparr> logger = enable_logging,
       execution_history = [],
       max_execution_time = 30,
       max_memory_usage = 100 * 1024 * 1024,
       log_lines = [] \<rparr>"

definition set_max_execution_time :: "int \<Rightarrow> wrapper \<Rightarrow> wrapper" where
  "set_max_execution_time seconds w = w\<lparr> max_execution_time := max 1 seconds \<rparr>"

definition set_max_memory_usage :: "int \<Rightarrow> wrapper \<Rightarrow> wrapper" where
  "set_max_memory_usage bytes_limit w = w\<lparr> max_memory_usage := max 1024 bytes_limit \<rparr>"

definition clear_execution_history :: "wrapper \<Rightarrow> wrapper" where
  "clear_execution_history w = w\<lparr> execution_history := [] \<rparr>"

section \<open>Logging\<close>

text \<open>
  Each helper calls the logger only when there is one; a call of the logger is taken to
  return. The message is an f-string, built before the logger is called:
  \<^verbatim>\<open>f"Args: {args}, Kwargs: {kwargs}"\<close> renders the arguments and
  \<^verbatim>\<open>f"Result: {result}"\<close> formats the result, and a fault raised there leaves the
  helper after the lines already written.
\<close>

definition emit :: "log_level \<Rightarrow> wrapper \<Rightarrow> wrapper" where
  "emit l w = w\<lparr> log_lines := log_lines w @ [l] \<rparr>"

definition log_execution_start ::
  "string \<Rightarrow> string \<Rightarrow> pyval list \<Rightarrow> kwargs \<Rightarrow> wrapper \<Rightarrow> pyexn option \<times> wrapper" where
  "log_execution_start execution_id tool_name args kw w =
     (if logger w then
        (case str_call args kw of
           Inl e \<Rightarrow> (Some e, emit INFO w)
         | Inr s \<Rightarrow> (None, emit DEBUG (emit INFO w)))
      else (None, w))"

definition log_execution_success ::
  "string \<Rightarrow> string \<Rightarrow> rat \<Rightarrow> pyval \<Rightarrow> wrapper \<Rightarrow> pyexn option \<times> wrapper" where
  "log_execution_success execution_id tool_name execution_time result w =
     (if logger w then
        (case py_format result of
           Inl e \<Rightarrow> (Some e, emit INFO w)
         | Inr s \<Rightarrow> (None, emit DEBUG (emit INFO w)))
      else (None, w))"

definition log_execution_error :: "string \<Rightarrow> string \<Rightarrow> string \<Rightarrow> wrapper \<Rightarrow> wrapper" where
  "log_execution_error execution_id tool_name error_msg w =
     (if logger w then emit ERROR w else w)"

definition log_security_warning :: "string \<Rightarrow> string \<Rightarrow> wrapper \<Rightarrow> wrapper" where
  "log_security_warning tool_name warning_msg w =
     (if logger w then emit WARNING w else w)"

section \<open>Input validation\<close>

definition dangerous_patterns :: "string list" where
  "dangerous_patterns =
     [''eval('', ''exec('', ''import '', ''os.system'', ''subprocess'',
      ''file://'', ''http://'', ''https://'', ''ftp://'']"

text \<open>
  The body of the \<^verbatim>\<open>try\<close>: the two counts, then the rendering, then the first
  pattern of the list that occurs in it.
\<close>

definition validate_input_try ::
  "string \<Rightarrow> pyval list \<Rightarrow> kwargs \<Rightarrow> wrapper \<Rightarrow> (pyexn + bool) \<times> wrapper" where
  "validate_input_try tool_name args kw w =
     (if length args > 10 then (Inr False, w)
      else if length kw > 20 then (Inr False, w)
      else
        (case str_call args kw of
           Inl e \<Rightarrow> (Inl e, w)
         | Inr input_str \<Rightarrow>
             (case find (\<lambda>pattern. py_in pattern input_str) dangerous_patterns of
                Some pattern \<Rightarrow>
                  (Inr False,
                   log_security_warning tool_name
                     (''Potentially dangerous input: '' @ pattern) w)
              | None \<Rightarrow> (Inr True, w))))"

text \<open>
  \<^verbatim>\<open>except Exception as e\<close>: a fault of class \<^verbatim>\<open>Exception\<close> is formatted into the
  warning \<^verbatim>\<open>f"Input validation error: {e}"\<close>, whether or not there is a logger, and
  answered with \<^verbatim>\<open>False\<close>; a fault raised by that formatting leaves the function, under
  no \<^verbatim>\<open>try\<close> of its own. Any other fault of the body leaves the function as it is.
\<close>

definition validate_input ::
  "string \<Rightarrow> pyval list \<Rightarrow> kwargs \<Rightarrow> wrapper \<Rightarrow> (pyexn + bool) \<times> wrapper" where
  "validate_input tool_name args kw w =
     (case validate_input_try tool_name args kw w of
        (Inl e, w') \<Rightarrow>
          (if is_Exception e then
             (case exn_format e of
                Inl e' \<Rightarrow> (Inl e', w')
              | Inr m \<Rightarrow>
                  (Inr False,
                   log_security_warning tool_name (''Input validation error: '' @ m) w'))
           else (Inl e, w'))
      | r \<Rightarrow> r)"

section \<open>Running the tool\<close>

text \<open>
  What the wrapper does not own: the readings of the clock, \<open>time_time k\<close> being the
  reading of the \<open>k\<close>-th call of \<^verbatim>\<open>time.time()\<close> made during the call, counted from 0,
  and whether the call is made on the main thread of the interpreter. The platform is
  taken to have \<^verbatim>\<open>SIGALRM\<close>.
\<close>

record environment =
  time_time :: "nat \<Rightarrow> rat"
  main_thread :: bool

text \<open>
  \<^verbatim>\<open>signal.signal(signal.SIGALRM, timeout_handler)\<close> raises \<^verbatim>\<open>ValueError\<close> off the
  main thread; \<^verbatim>\<open>signal.alarm(self.max_execution_time)\<close> then raises
  \<^verbatim>\<open>OverflowError\<close> when the number of seconds does not fit a C \<^verbatim>\<open>int\<close>. Both stand
  before the \<^verbatim>\<open>try\<close> of \<^verbatim>\<open>_execute_with_timeout\<close> and before the call of the tool.
\<close>

definition signal_setup :: "environment \<Rightarrow> wrapper \<Rightarrow> pyexn option" where
  "signal_setup env w =
     (if \<not> main_thread env
      then Some (exception ''signal only works in main thread of the main interpreter'')
      else if max_execution_time w < - (2 ^ 31) \<or> 2 ^ 31 - 1 < max_execution_time w
      then Some (exception ''Python int too large to convert to C int'')
      else None)"

text \<open>
  A tool is any callable. Calling it on the arguments, in a world \<open>'w\<close> that holds
  whatever the call can change (a call counter, say), goes one of four ways once the
  alarm is set: it returns a value; it raises; the alarm fires while it runs and the
  \<^verbatim>\<open>TimeoutError\<close> raised by \<^verbatim>\<open>timeout_handler\<close> leaves the call; or it never comes
  back, be it that it runs forever under an alarm that is not armed or that it swallows
  the \<^verbatim>\<open>TimeoutError\<close>, which is raised once. \<open>TimesOut\<close> is a way a run can go only
  under an armed alarm, that is for \<^verbatim>\<open>max_execution_time\<close> at least 1, where \<open>init\<close>
  and the setter keep it.
\<close>

datatype tool_run = Returns pyval | Raises pyexn | TimesOut | NeverReturns

type_synonym 'w tool = "pyval list \<Rightarrow> kwargs \<Rightarrow> 'w \<Rightarrow> tool_run \<times> 'w"

text \<open>
  How a call of a method of the wrapper ends: it returns a value, a fault leaves it, or
  it does not end.
\<close>

datatype outcome = Returned pyval | Raised pyexn | Hangs

definition execute_with_timeout ::
  "'w tool \<Rightarrow> pyval list \<Rightarrow> kwargs \<Rightarrow> environment \<Rightarrow> wrapper \<Rightarrow> 'w \<Rightarrow> outcome \<times> 'w" where
  "execute_with_timeout tool_func args kw env w world =
     (case signal_setup env w of
        Some e \<Rightarrow> (Raised e, world)
      | None \<Rightarrow>
          (case tool_func args kw world of
             (Returns result, world') \<Rightarrow> (Returned result, world')
           | (Raises e, world') \<Rightarrow> (Raised e, world')
           | (TimesOut, world') \<Rightarrow>
               (Raised (exception (''Tool execution timed out after ''
                  @ py_str_int (max_execution_time w) @ '' seconds'')), world')
           | (NeverReturns, world') \<Rightarrow> (Hangs, world')))"

section \<open>The ledger\<close>

text \<open>
  \<open>now\<close> is the reading of \<^verbatim>\<open>time.time()\<close> taken for the \<^verbatim>\<open>timestamp\<close> entry,
  before \<^verbatim>\<open>str(result)\<close> is evaluated; a fault of that rendering leaves the ledger
  as it was.
\<close>

definition record_execution ::
  "string \<Rightarrow> string \<Rightarrow> bool \<Rightarrow> rat \<Rightarrow> rat \<Rightarrow> pyval \<Rightarrow> wrapper \<Rightarrow> pyexn option \<times> wrapper" where
  "record_execution execution_id tool_name success execution_time now result w =
     (case py_str result of
        Inl e \<Rightarrow> (Some e, w)
      | Inr s \<Rightarrow>
          (let execution_record =
                 \<lparr> er_id = execution_id,
                   er_tool_name = tool_name,
                   er_success = success,
                   er_execution_time = execution_time,
                   er_timestamp = now,
                   er_result = take 1000 s \<rparr>;
               history = execution_history w @ [execution_record]
           in (None,
               w\<lparr> execution_history :=
                     (if length history > 1000 then py_slice_from (- 1000) history
                      else history) \<rparr>)))"

section \<open>execute_safely\<close>

text \<open>
  The body of the \<^verbatim>\<open>try\<close> also returns how many readings of the clock the call has
  taken, so that the handler reads the next ones. When the tool never returns, the call
  stays where it is: the state is the one reached there.
\<close>

definition validation_failed_msg :: "string \<Rightarrow> string" where
  "validation_failed_msg tool_name = ''Input validation failed for tool '' @ tool_name"

definition execution_failed_msg :: "string \<Rightarrow> string \<Rightarrow> string" where
  "execution_failed_msg tool_name m = ''Tool '' @ tool_name @ '' execution failed: '' @ m"

definition execute_safely_try ::
  "'w tool \<Rightarrow> string \<Rightarrow> pyval list \<Rightarrow> kwargs \<Rightarrow> environment \<Rightarrow> string \<Rightarrow> wrapper \<times> 'w
     \<Rightarrow> outcome \<times> nat \<times> wrapper \<times> 'w" where
  "execute_safely_try tool_func tool_name args kw env execution_id s =
     (case s of (w, world) \<Rightarrow>
       (case validate_input tool_name args kw w of
          (Inl e, w1) \<Rightarrow> (Raised e, 1, w1, world)
        | (Inr False, w1) \<Rightarrow>
            (let error_msg = validation_failed_msg tool_name
             in (Returned (PyStr error_msg), 1,
                 log_execution_error execution_id tool_name error_msg w1, world))
        | (Inr True, w1) \<Rightarrow>
            (case execute_with_timeout tool_func args kw env w1 world of
               (Raised e, world1) \<Rightarrow> (Raised e, 1, w1, world1)
             | (Hangs, world1) \<Rightarrow> (Hangs, 1, w1, world1)
             | (Returned result, world1) \<Rightarrow>
                 (let execution_time = time_time env 1 - time_time env 0
                  in (case log_execution_success execution_id tool_name execution_time result w1 of
                        (Some e, w2) \<Rightarrow> (Raised e, 2, w2, world1)
                      | (None, w2) \<Rightarrow>
                          (case record_execution execution_id tool_name True execution_time
                                  (time_time env 2) result w2 of
                             (Some e, w3) \<Rightarrow> (Raised e, 3, w3, world1)
                           | (None, w3) \<Rightarrow> (Returned result, 3, w3, world1)))))))"

text \<open>
  \<^verbatim>\<open>_log_execution_start\<close> stands before the \<^verbatim>\<open>try\<close>: a fault of it leaves the call.
  The \<^verbatim>\<open>except Exception\<close> clause evaluates \<^verbatim>\<open>str(e)\<close> under no \<^verbatim>\<open>try\<close>: a fault
  of that leaves the call too, before anything is logged or recorded.
\<close>

definition execute_safely ::
  "'w tool \<Rightarrow> string \<Rightarrow> pyval list \<Rightarrow> kwargs \<Rightarrow> environment \<Rightarrow> wrapper \<times> 'w
     \<Rightarrow> outcome \<times> wrapper \<times> 'w" where
  "execute_safely tool_func tool_name args kw env s =
     (case s of (w, world) \<Rightarrow>
       (let start_time = time_time env 0;
            execution_id = tool_name @ ''_'' @ py_str_int (py_int start_time)
        in (case log_execution_start execution_id tool_name args kw w of
              (Some e, w0) \<Rightarrow> (Raised e, w0, world)
            | (None, w0) \<Rightarrow>
                (case execute_safely_try tool_func tool_name args kw env execution_id
                        (w0, world) of
                   (Raised e, k, w1, world1) \<Rightarrow>
                     (if is_Exception e then
                        (let execution_time = time_time env k - start_time
                         in (case exn_str e of
                               Inl e' \<Rightarrow> (Raised e', w1, world1)
                             | Inr m \<Rightarrow>
                                 (let error_msg = execution_failed_msg tool_name m;
                                      w2 = log_execution_error execution_id tool_name error_msg w1
                                  in (case record_execution execution_id tool_name False
                                             execution_time (time_time env (k + 1))
                                             (PyStr error_msg) w2 of
                                        (Some e', w3) \<Rightarrow> (Raised e', w3, world1)
                                      | (None, w3) \<Rightarrow>
                                          (Returned (PyStr error_msg), w3, world1)))))
                      else (Raised e, w1, world1))
                 | (r, k, w1, world1) \<Rightarrow> (r, w1, world1)))))"

section \<open>Queries\<close>

text \<open>The values of the statistics dict: counts are ints, times and rates floats.\<close>

datatype pynum = NInt int | NFloat rat

definition get_execution_stats :: "wrapper \<Rightarrow> (string \<times> pynum) list" where
  "get_execution_stats w =
     (let history = execution_history w
      in if history = [] then [(''total_executions'', NInt 0)]
         else
           (let successful = filter er_success history;
                failed = filter (\<lambda>e. \<not> er_success e) history;
                total_time = sum_list (map er_execution_time history);
                avg_time = (if history \<noteq> [] then NFloat (total_time / of_nat (length history))
                            else NInt 0)
            in [(''total_executions'', NInt (int (length history))),
                (''successful_executions'', NInt (int (length successful))),
                (''failed_executions'', NInt (int (length failed))),
                (''success_rate'',
                   (if history \<noteq> []
                    then NFloat (of_nat (length successful) / of_nat (length history))
                    else NInt 0)),
                (''average_execution_time'', avg_time),
                (''total_execution_time'', NFloat total_time)]))"

definition get_recent_executions :: "int \<Rightarrow> wrapper \<Rightarrow> execution_record list" where
  "get_recent_executions limit w =
     (if execution_history w \<noteq> [] then py_slice_from (- limit) (execution_history w)
      else [])"

section \<open>Sequences of operations\<close>

text \<open>
  The public methods, as operations on the wrapper and the world the tools act on. A
  call of \<^verbatim>\<open>execute_safely\<close> that lets a fault out still leaves its changes behind; one
  that does not end has no operation after it.
\<close>

datatype 'w operation =
    ExecuteSafely "'w tool" string "pyval list" kwargs environment
  | GetExecutionStats
  | GetRecentExecutions int
  | ClearExecutionHistory
  | SetMaxExecutionTime int
  | SetMaxMemoryUsage int

fun apply_operation :: "'w operation \<Rightarrow> wrapper \<times> 'w \<Rightarrow> wrapper \<times> 'w" where
  "apply_operation (ExecuteSafely tool_func tool_name args kw env) s =
     snd (execute_safely tool_func tool_name args kw env s)"
| "apply_operation GetExecutionStats s = s"
| "apply_operation (GetRecentExecutions limit) s = s"
| "apply_operation ClearExecutionHistory (w, world) = (clear_execution_history w, world)"
| "apply_operation (SetMaxExecutionTime seconds) (w, world) =
     (set_max_execution_time seconds w, world)"
| "apply_operation (SetMaxMemoryUsage bytes_limit) (w, world) =
     (set_max_memory_usage bytes_limit w, world)"

fun ends :: "'w operation \<Rightarrow> wrapper \<times> 'w \<Rightarrow> bool" where
  "ends (ExecuteSafely tool_func tool_name args kw env) s =
     (fst (execute_safely tool_func tool_name args kw env s) \<noteq> Hangs)"
| "ends x s = True"

fun run :: "'w operation list \<Rightarrow> wrapper \<times> 'w \<Rightarrow> wrapper \<times> 'w" where
  "run [] s = s"
| "run (x # xs) s = (if ends x s then run xs (apply_operation x s) else apply_operation x s)"

text \<open>Recording a list of attempts one after the other, each given by its six entries.\<close>

type_synonym attempt = "string \<times> string \<times> bool \<times> rat \<times> rat \<times> string"

definition record_attempt :: "attempt \<Rightarrow> wrapper \<Rightarrow> wrapper" where
  "record_attempt x w =
     (case x of (execution_id, tool_name, success, execution_time, now, result) \<Rightarrow>
        snd (record_execution execution_id tool_name success execution_time now (PyStr result) w))"

section \<open>Notions used in the statements\<close>

text \<open>The record that \<^verbatim>\<open>_record_execution\<close> builds from a rendered result.\<close>

definition new_record ::
  "string \<Rightarrow> string \<Rightarrow> bool \<Rightarrow> rat \<Rightarrow> rat \<Rightarrow> string \<Rightarrow> execution_record" where
  "new_record i n b x now s =
     \<lparr> er_id = i, er_tool_name = n, er_success = b, er_execution_time = x,
       er_timestamp = now, er_result = take 1000 s \<rparr>"

definition record_of_attempt :: "attempt \<Rightarrow> execution_record" where
  "record_of_attempt x = (case x of (i, n, b, t, now, s) \<Rightarrow> new_record i n b t now s)"

text \<open>The ledger after one more record: the record at the end, the oldest dropped when
  that makes more than 1000.\<close>

definition appended :: "execution_record \<Rightarrow> execution_record list \<Rightarrow> execution_record list" where
  "appended r h = drop (Suc (length h) - 1000) (h @ [r])"

text \<open>Two states of the wrapper that differ in the lines logged at most.\<close>

definition only_logged :: "wrapper \<Rightarrow> wrapper \<Rightarrow> bool" where
  "only_logged w w' = (w' = w\<lparr> log_lines := log_lines w' \<rparr>)"

definition execution_id_of :: "string \<Rightarrow> environment \<Rightarrow> string" where
  "execution_id_of n env = n @ ''_'' @ py_str_int (py_int (time_time env 0))"

definition timeout_msg :: "wrapper \<Rightarrow> string" where
  "timeout_msg w = ''Tool execution timed out after '' @ py_str_int (max_execution_time w)
     @ '' seconds''"

text \<open>
  A fault that the \<^verbatim>\<open>except Exception\<close> clause of \<^verbatim>\<open>execute_safely\<close> turns into an
  error string: an instance of \<^verbatim>\<open>Exception\<close> whose \<^verbatim>\<open>str\<close> returns.
\<close>

definition describable :: "pyexn \<Rightarrow> bool" where
  "describable e = (is_Exception e \<and> (case exn_str e of Inl x \<Rightarrow> False | Inr m \<Rightarrow> True))"

text \<open>A rendering that returns, or raises a fault that can be described.\<close>

definition contained :: "pyexn + string \<Rightarrow> bool" where
  "contained r = (case r of Inl e \<Rightarrow> describable e | Inr s \<Rightarrow> True)"

text \<open>
  A run of the tool that ends, and whose faults, those of formatting and rendering the
  value returned among them, can be described.
\<close>

definition contained_run :: "tool_run \<Rightarrow> bool" where
  "contained_run r =
     (case r of
        Returns v \<Rightarrow> contained (py_format v) \<and> contained (py_str v)
      | Raises e \<Rightarrow> describable e
      | TimesOut \<Rightarrow> True
      | NeverReturns \<Rightarrow> False)"

text \<open>
  Arguments that the wrapper can take in: they render, or there is no logger and the
  fault of the rendering is an instance of \<^verbatim>\<open>Exception\<close> that can be formatted.
\<close>

definition accepted_arguments :: "bool \<Rightarrow> pyval list \<Rightarrow> kwargs \<Rightarrow> bool" where
  "accepted_arguments logging args kw =
     (case str_call args kw of
        Inr s \<Rightarrow> True
      | Inl e \<Rightarrow> \<not> logging \<and> is_Exception e
                 \<and> (case exn_format e of Inl x \<Rightarrow> False | Inr m \<Rightarrow> True))"

text \<open>The \<^verbatim>\<open>except Exception\<close> clause of \<^verbatim>\<open>execute_safely\<close>, applied to what its
  \<^verbatim>\<open>try\<close> body gave.\<close>

definition handled ::
  "string \<Rightarrow> environment \<Rightarrow> outcome \<times> nat \<times> wrapper \<times> 'w \<Rightarrow> outcome \<times> wrapper \<times> 'w" where
  "handled n env x =
     (case x of
        (Raised e, j, w1, world1) \<Rightarrow>
          (if is_Exception e then
             (case exn_str e of
                Inl e' \<Rightarrow> (Raised e', w1, world1)
              | Inr m \<Rightarrow>
                  (Returned (PyStr (execution_failed_msg n m)),
                   (log_execution_error (execution_id_of n env) n (execution_failed_msg n m) w1)
                     \<lparr> execution_history :=
                         appended (new_record (execution_id_of n env) n False
                                     (time_time env j - time_time env 0) (time_time env (j + 1))
                                     (execution_failed_msg n m))
                           (execution_history w1) \<rparr>,
                   world1))
           else (Raised e, w1, world1))
      | (r, j, w1, world1) \<Rightarrow> (r, w1, world1))"

section \<open>Example tools and calls\<close>

text \<open>
  Tools whose world is a call counter. \<open>double\<close> is \<^verbatim>\<open>def double(x): return x * 2\<close> on
  integers; \<open>failing\<close> raises \<^verbatim>\<open>ValueError("boom")\<close>; \<open>interrupted\<close> stands for a
  call during which \<^verbatim>\<open>KeyboardInterrupt\<close> is raised; \<open>sleeper\<close> is still running when the
  alarm fires; \<open>stubborn\<close> never returns; \<open>opaque\<close> returns an object whose \<^verbatim>\<open>__str__\<close>
  raises; \<open>mute\<close> raises an exception whose \<^verbatim>\<open>__str__\<close> raises \<^verbatim>\<open>RuntimeError\<close>.
  \<open>unprintable\<close> is an object whose \<^verbatim>\<open>__str__\<close> and \<^verbatim>\<open>__repr__\<close> raise, and
  \<open>unrenderable\<close> one where they raise an exception whose \<^verbatim>\<open>__str__\<close> raises.
\<close>

definition double :: "nat tool" where
  "double args kw calls =
     (case (args, kw) of
        ([PyInt x], []) \<Rightarrow> (Returns (PyInt (x * 2)), Suc calls)
      | _ \<Rightarrow> (Raises (exception ''unsupported operand''), Suc calls))"

definition failing :: "nat tool" where
  "failing args kw calls = (Raises (exception ''boom''), Suc calls)"

definition interrupted :: "nat tool" where
  "interrupted args kw calls = (Raises (base_exception ''KeyboardInterrupt''), Suc calls)"

definition sleeper :: "nat tool" where
  "sleeper args kw calls = (TimesOut, Suc calls)"

definition stubborn :: "nat tool" where
  "stubborn args kw calls = (NeverReturns, Suc calls)"

definition unprintable :: pyval where
  "unprintable =
     PyObj (Inl (exception ''no str'')) (Inl (exception ''no repr'')) (Inl (exception ''no str''))"

definition opaque :: "nat tool" where
  "opaque args kw calls = (Returns unprintable, Suc calls)"

definition undescribable :: pyexn where
  "undescribable =
     PyExn True (Inl (exception ''no description'')) (Inl (exception ''no description''))"

definition mute :: "nat tool" where
  "mute args kw calls = (Raises undescribable, Suc calls)"


definition env0 :: environment where
  "env0 = \<lparr> time_time = (\<lambda>k. 100 + of_nat k / 2), main_thread = True \<rparr>"

definition sample_record :: "string \<Rightarrow> execution_record" where
  "sample_record s =
     \<lparr> er_id = ''T_100'', er_tool_name = ''T'', er_success = True,
       er_execution_time = 1 / 2, er_timestamp = 101, er_result = s \<rparr>"

section \<open>Lemmas on the parts of execute_safely\<close>

lemma py_slice_from_neg: "0 < n \<Longrightarrow> py_slice_from (- int n) xs = drop (length xs - n) xs"
  by (auto simp: py_slice_from_def nat_diff_distrib')

lemma py_in_prefix: "py_in p (p @ ys)"
proof (cases "p @ ys")
  case Nil
  then show ?thesis by simp
next
  case (Cons c cs)
  then have "take (length p) (c # cs) = p"
    by (metis append_eq_conv_conj)
  with Cons show ?thesis by simp
qed

lemma py_in_append: "py_in p (xs @ p @ ys)"
  by (induction xs) (simp_all add: py_in_prefix)

lemma only_logged_refl [simp]: "only_logged w w"
  by (simp add: only_logged_def)

lemma only_logged_trans: "only_logged w w1 \<Longrightarrow> only_logged w1 w2 \<Longrightarrow> only_logged w w2"
  unfolding only_logged_def
  by (metis wrapper.update_convs(5) wrapper.surjective wrapper.select_convs)

lemma only_logged_fields:
  "only_logged w w' \<Longrightarrow>
     logger w' = logger w \<and> execution_history w' = execution_history w
     \<and> max_execution_time w' = max_execution_time w
     \<and> max_memory_usage w' = max_memory_usage w"
  unfolding only_logged_def
  by (metis wrapper.select_convs wrapper.surjective wrapper.update_convs(5))

lemma only_logged_emit [simp]: "only_logged w (emit l w)"
  by (simp add: only_logged_def emit_def)

lemma only_logged_error [simp]: "only_logged w (log_execution_error e n m w)"
  by (simp add: log_execution_error_def)

lemma history_log_execution_error [simp]:
  "execution_history (log_execution_error e n m w) = execution_history w"
  by (simp add: log_execution_error_def emit_def)

lemma only_logged_warning [simp]: "only_logged w (log_security_warning n m w)"
  by (simp add: log_security_warning_def)

lemma only_logged_start: "only_logged w (snd (log_execution_start e n a k w))"
  by (auto simp: log_execution_start_def intro: only_logged_trans [of w "emit INFO w"]
      split: sum.splits)

lemma only_logged_success: "only_logged w (snd (log_execution_success e n x r w))"
  by (auto simp: log_execution_success_def intro: only_logged_trans [of w "emit INFO w"]
      split: sum.splits)

lemma only_logged_validate: "only_logged w (snd (validate_input n a k w))"
  by (auto simp: validate_input_def validate_input_try_def
      split: sum.splits option.splits)

lemma validate_input_fst_indep:
  "fst (validate_input n a k w) = fst (validate_input n a k w')"
  by (auto simp: validate_input_def validate_input_try_def
      split: sum.splits option.splits)

lemma validate_True_renders:
  "fst (validate_input n a k w) = Inr True \<Longrightarrow> \<exists>s. str_call a k = Inr s"
  by (auto simp: validate_input_def validate_input_try_def
      split: sum.splits option.splits if_splits)

lemma signal_setup_indep:
  "max_execution_time w' = max_execution_time w \<Longrightarrow> signal_setup env w' = signal_setup env w"
  by (simp add: signal_setup_def)

lemma signal_setup_describable: "signal_setup env w = Some e \<Longrightarrow> describable e"
  by (auto simp: signal_setup_def describable_def exception_def split: if_splits)

lemma log_start_fst:
  "fst (log_execution_start e n a k w)
     = (if logger w then (case str_call a k of Inl x \<Rightarrow> Some x | Inr s \<Rightarrow> None) else None)"
  by (simp add: log_execution_start_def split: sum.splits)

lemma log_success_fst:
  "fst (log_execution_success e n x r w)
     = (if logger w then (case py_format r of Inl x \<Rightarrow> Some x | Inr s \<Rightarrow> None) else None)"
  by (simp add: log_execution_success_def split: sum.splits)

lemma record_execution_ok:
  "py_str r = Inr s \<Longrightarrow>
   record_execution i n b x now r w
     = (None, w\<lparr> execution_history := appended (new_record i n b x now s) (execution_history w) \<rparr>)"
  by (simp add: record_execution_def Let_def py_slice_from_def new_record_def appended_def
        nat_diff_distrib')

lemma record_execution_fault:
  "py_str r = Inl x \<Longrightarrow> record_execution i n b y now r w = (Some x, w)"
  by (simp add: record_execution_def)

lemma length_appended: "length h \<le> 1000 \<Longrightarrow> length (appended r h) \<le> 1000"
  by (simp add: appended_def)

lemma appended_unfold:
  "appended (new_record i n b x now s) h
     = drop (Suc (length h) - 1000)
         (h @ [\<lparr> er_id = i, er_tool_name = n, er_success = b, er_execution_time = x,
                 er_timestamp = now, er_result = take 1000 s \<rparr>])"
  by (simp add: appended_def new_record_def)

lemma handled_exception:
  "is_Exception e \<Longrightarrow> exn_str e = Inr m \<Longrightarrow>
   handled n env (Raised e, j, w1, world1)
     = (Returned (PyStr (execution_failed_msg n m)),
        (log_execution_error (execution_id_of n env) n (execution_failed_msg n m) w1)
          \<lparr> execution_history :=
              appended (new_record (execution_id_of n env) n False
                          (time_time env j - time_time env 0) (time_time env (j + 1))
                          (execution_failed_msg n m))
                (execution_history w1) \<rparr>,
        world1)"
  by (simp add: handled_def)

lemma handled_undescribable:
  "is_Exception e \<Longrightarrow> exn_str e = Inl x \<Longrightarrow>
   handled n env (Raised e, j, w1, world1) = (Raised x, w1, world1)"
  by (simp add: handled_def)

lemma handled_base:
  "\<not> is_Exception e \<Longrightarrow> handled n env (Raised e, j, w1, world1) = (Raised e, w1, world1)"
  by (simp add: handled_def)

lemma handled_value: "handled n env (Returned v, j, w1, world1) = (Returned v, w1, world1)"
  by (simp add: handled_def)

lemma handled_hangs: "handled n env (Hangs, j, w1, world1) = (Hangs, w1, world1)"
  by (simp add: handled_def)

subsection \<open>The body of the try, path by path\<close>

lemma try_reject:
  assumes "fst (validate_input n a k w0) = Inr False"
  shows "\<exists>w1. execute_safely_try t n a k env e (w0, world)
            = (Returned (PyStr (validation_failed_msg n)), 1, w1, world) \<and> only_logged w0 w1"
proof -
  obtain x w' where v: "validate_input n a k w0 = (x, w')"
    by (cases "validate_input n a k w0")
  with assms have x: "x = Inr False" by simp
  have "only_logged w0 w'" using only_logged_validate [of w0 n a k] v by simp
  then have "only_logged w0 (log_execution_error e n (validation_failed_msg n) w')"
    by (rule only_logged_trans) simp
  then show ?thesis
    by (simp add: execute_safely_try_def v x Let_def)
qed

lemma try_validate_fault:
  assumes "fst (validate_input n a k w0) = Inl x"
  shows "\<exists>w1. execute_safely_try t n a k env e (w0, world) = (Raised x, 1, w1, world)
            \<and> only_logged w0 w1"
proof -
  obtain y w' where v: "validate_input n a k w0 = (y, w')"
    by (cases "validate_input n a k w0")
  with assms have y: "y = Inl x" by simp
  have "only_logged w0 w'" using only_logged_validate [of w0 n a k] v by simp
  then show ?thesis
    by (simp add: execute_safely_try_def v y)
qed

lemma try_setup_fault:
  assumes "fst (validate_input n a k w0) = Inr True" and "signal_setup env w0 = Some x"
  shows "\<exists>w1. execute_safely_try t n a k env e (w0, world) = (Raised x, 1, w1, world)
            \<and> only_logged w0 w1"
proof -
  obtain y w' where v: "validate_input n a k w0 = (y, w')"
    by (cases "validate_input n a k w0")
  with assms have y: "y = Inr True" by simp
  have l: "only_logged w0 w'" using only_logged_validate [of w0 n a k] v by simp
  then have "signal_setup env w' = Some x"
    using assms(2) signal_setup_indep [of w' w0 env] by (simp add: only_logged_fields)
  with l show ?thesis
    by (simp add: execute_safely_try_def v y execute_with_timeout_def)
qed

lemma try_raises:
  assumes "fst (validate_input n a k w0) = Inr True" and "signal_setup env w0 = None"
    and "fst (t a k world) = Raises x"
  shows "\<exists>w1. execute_safely_try t n a k env e (w0, world) = (Raised x, 1, w1, snd (t a k world))
            \<and> only_logged w0 w1"
proof -
  obtain y w' where v: "validate_input n a k w0 = (y, w')"
    by (cases "validate_input n a k w0")
  with assms have y: "y = Inr True" by simp
  obtain world' where r: "t a k world = (Raises x, world')"
    using assms(3) by (cases "t a k world") simp
  have l: "only_logged w0 w'" using only_logged_validate [of w0 n a k] v by simp
  then have "signal_setup env w' = None"
    using assms(2) signal_setup_indep [of w' w0 env] by (simp add: only_logged_fields)
  with l show ?thesis
    by (simp add: execute_safely_try_def v y r execute_with_timeout_def)
qed

lemma try_times_out:
  assumes "fst (validate_input n a k w0) = Inr True" and "signal_setup env w0 = None"
    and "fst (t a k world) = TimesOut"
  shows "\<exists>w1. execute_safely_try t n a k env e (w0, world)
              = (Raised (exception (timeout_msg w0)), 1, w1, snd (t a k world))
            \<and> only_logged w0 w1"
proof -
  obtain y w' where v: "validate_input n a k w0 = (y, w')"
    by (cases "validate_input n a k w0")
  with assms have y: "y = Inr True" by simp
  obtain world' where r: "t a k world = (TimesOut, world')"
    using assms(3) by (cases "t a k world") simp
  have l: "only_logged w0 w'" using only_logged_validate [of w0 n a k] v by simp
  then have m: "max_execution_time w' = max_execution_time w0"
    by (simp add: only_logged_fields)
  then have "signal_setup env w' = None"
    using assms(2) signal_setup_indep [of w' w0 env] by simp
  with l m show ?thesis
    by (simp add: execute_safely_try_def v y r execute_with_timeout_def timeout_msg_def)
qed

lemma try_never_returns:
  assumes "fst (validate_input n a k w0) = Inr True" and "signal_setup env w0 = None"
    and "fst (t a k world) = NeverReturns"
  shows "\<exists>w1. execute_safely_try t n a k env e (w0, world) = (Hangs, 1, w1, snd (t a k world))
            \<and> only_logged w0 w1"
proof -
  obtain y w' where v: "validate_input n a k w0 = (y, w')"
    by (cases "validate_input n a k w0")
  with assms have y: "y = Inr True" by simp
  obtain world' where r: "t a k world = (NeverReturns, world')"
    using assms(3) by (cases "t a k world") simp
  have l: "only_logged w0 w'" using only_logged_validate [of w0 n a k] v by simp
  then have "signal_setup env w' = None"
    using assms(2) signal_setup_indep [of w' w0 env] by (simp add: only_logged_fields)
  with l show ?thesis
    by (simp add: execute_safely_try_def v y r execute_with_timeout_def)
qed

lemma try_returns_ok:
  assumes "fst (validate_input n a k w0) = Inr True" and "signal_setup env w0 = None"
    and "fst (t a k world) = Returns v"
    and "logger w0 \<longrightarrow> (\<exists>f. py_format v = Inr f)" and "py_str v = Inr s"
  shows "\<exists>w1. execute_safely_try t n a k env e (w0, world)
              = (Returned v, 3,
                 w1\<lparr> execution_history :=
                       appended (new_record e n True (time_time env 1 - time_time env 0)
                                   (time_time env 2) s) (execution_history w0) \<rparr>,
                 snd (t a k world))
            \<and> only_logged w0 w1"
proof -
  let ?x = "time_time env 1 - time_time env 0"
  obtain y w' where v: "validate_input n a k w0 = (y, w')"
    by (cases "validate_input n a k w0")
  with assms have y: "y = Inr True" by simp
  obtain world' where r: "t a k world = (Returns v, world')"
    using assms(3) by (cases "t a k world") simp
  have l0: "only_logged w0 w'" using only_logged_validate [of w0 n a k] v by simp
  then have su: "signal_setup env w' = None"
    using assms(2) signal_setup_indep [of w' w0 env] by (simp add: only_logged_fields)
  obtain z w2 where ls: "log_execution_success e n ?x v w' = (z, w2)"
    by (cases "log_execution_success e n ?x v w'")
  have "logger w' = logger w0" using l0 by (simp add: only_logged_fields)
  then have z: "z = None"
    using log_success_fst [of e n ?x v w'] ls assms(4) by (auto split: sum.splits)
  have "only_logged w' w2"
    using only_logged_success [of w' e n ?x v] ls by simp
  with l0 have l: "only_logged w0 w2" by (rule only_logged_trans)
  then have "execution_history w2 = execution_history w0" by (simp add: only_logged_fields)
  with l show ?thesis
    by (intro exI [of _ w2])
       (simp add: execute_safely_try_def v y r su ls z execute_with_timeout_def
          record_execution_ok [OF assms(5)] del: One_nat_def)
qed

lemma try_returns_fault:
  assumes "fst (validate_input n a k w0) = Inr True" and "signal_setup env w0 = None"
    and "fst (t a k world) = Returns v"
    and "(logger w0 \<and> py_format v = Inl x)
         \<or> ((logger w0 \<longrightarrow> (\<exists>f. py_format v = Inr f)) \<and> py_str v = Inl x)"
  shows "\<exists>w1 j. execute_safely_try t n a k env e (w0, world) = (Raised x, j, w1, snd (t a k world))
            \<and> only_logged w0 w1"
proof -
  let ?x = "time_time env 1 - time_time env 0"
  obtain y w' where v: "validate_input n a k w0 = (y, w')"
    by (cases "validate_input n a k w0")
  with assms have y: "y = Inr True" by simp
  obtain world' where r: "t a k world = (Returns v, world')"
    using assms(3) by (cases "t a k world") simp
  have l0: "only_logged w0 w'" using only_logged_validate [of w0 n a k] v by simp
  then have su: "signal_setup env w' = None"
    using assms(2) signal_setup_indep [of w' w0 env] by (simp add: only_logged_fields)
  obtain z w2 where ls: "log_execution_success e n ?x v w' = (z, w2)"
    by (cases "log_execution_success e n ?x v w'")
  have lg: "logger w' = logger w0" using l0 by (simp add: only_logged_fields)
  have "only_logged w' w2"
    using only_logged_success [of w' e n ?x v] ls by simp
  with l0 have l: "only_logged w0 w2" by (rule only_logged_trans)
  from assms(4) show ?thesis
  proof
    assume a: "logger w0 \<and> py_format v = Inl x"
    then have "z = Some x"
      using log_success_fst [of e n ?x v w'] ls lg by simp
    with l show ?thesis
      by (simp add: execute_safely_try_def v y r su ls execute_with_timeout_def
            del: One_nat_def)
  next
    assume a: "(logger w0 \<longrightarrow> (\<exists>f. py_format v = Inr f)) \<and> py_str v = Inl x"
    then have "z = None"
      using log_success_fst [of e n ?x v w'] ls lg by (auto split: sum.splits)
    with l a show ?thesis
      by (simp add: execute_safely_try_def v y r su ls execute_with_timeout_def
            record_execution_fault del: One_nat_def)
  qed
qed

subsection \<open>execute_safely, path by path\<close>

lemma execute_log_start_fault:
  assumes "logger w" and "str_call a k = Inl x"
  shows "execute_safely t n a k env (w, world) = (Raised x, emit INFO w, world)"
  using assms by (simp add: execute_safely_def log_execution_start_def Let_def)

lemma execute_from_try:
  assumes "logger w \<longrightarrow> (\<exists>s. str_call a k = Inr s)"
  shows "\<exists>w0. only_logged w w0 \<and>
     execute_safely t n a k env (w, world)
       = handled n env (execute_safely_try t n a k env (execution_id_of n env) (w0, world))"
proof -
  define eid where "eid = execution_id_of n env"
  have eid: "n @ ''_'' @ py_str_int (py_int (time_time env 0)) = eid"
    by (simp add: eid_def execution_id_of_def)
  obtain z w0 where ls: "log_execution_start eid n a k w = (z, w0)"
    by (cases "log_execution_start eid n a k w")
  have z: "z = None"
    using log_start_fst [of eid n a k w] ls assms by (auto split: sum.splits)
  have l: "only_logged w w0"
    using only_logged_start [of w eid n a k] ls by simp
  obtain r j w1 world1 where
    tr: "execute_safely_try t n a k env eid (w0, world) = (r, j, w1, world1)"
    by (metis prod_cases4)
  have "execute_safely t n a k env (w, world)
       = handled n env (execute_safely_try t n a k env eid (w0, world))"
    unfolding execute_safely_def Let_def eid handled_def eid_def [symmetric]
    by (simp add: ls z tr record_execution_ok split: sum.splits outcome.splits)
  with l show ?thesis unfolding eid_def by blast
qed


lemma only_logged_same:
  assumes "only_logged w w0"
  shows "fst (validate_input n a k w0) = fst (validate_input n a k w)"
    and "signal_setup env w0 = signal_setup env w"
    and "logger w0 = logger w"
    and "execution_history w0 = execution_history w"
    and "timeout_msg w0 = timeout_msg w"
  using assms validate_input_fst_indep [of n a k w0 w] only_logged_fields [OF assms]
    signal_setup_indep [of w0 w env]
  by (simp_all add: timeout_msg_def)

lemma execute_of_raised:
  assumes l: "logger w \<longrightarrow> (\<exists>s. str_call a k = Inr s)"
    and t: "\<And>w0. only_logged w w0 \<Longrightarrow>
              \<exists>w1 j. execute_safely_try t n a k env (execution_id_of n env) (w0, world)
                        = (Raised e, j, w1, world1) \<and> only_logged w0 w1 \<and> P j"
  shows "(\<not> is_Exception e \<longrightarrow>
            fst (execute_safely t n a k env (w, world)) = Raised e
            \<and> only_logged w (fst (snd (execute_safely t n a k env (w, world))))
            \<and> snd (snd (execute_safely t n a k env (w, world))) = world1)
     \<and> (\<forall>x. is_Exception e \<and> exn_str e = Inl x \<longrightarrow>
            fst (execute_safely t n a k env (w, world)) = Raised x
            \<and> only_logged w (fst (snd (execute_safely t n a k env (w, world))))
            \<and> snd (snd (execute_safely t n a k env (w, world))) = world1)
     \<and> (\<forall>m. is_Exception e \<and> exn_str e = Inr m \<longrightarrow>
            fst (execute_safely t n a k env (w, world))
              = Returned (PyStr (execution_failed_msg n m))
            \<and> (\<exists>j. P j \<and> execution_history (fst (snd (execute_safely t n a k env (w, world))))
                  = appended (new_record (execution_id_of n env) n False
                                (time_time env j - time_time env 0) (time_time env (j + 1))
                                (execution_failed_msg n m)) (execution_history w))
            \<and> snd (snd (execute_safely t n a k env (w, world))) = world1)"
proof -
  from execute_from_try [OF l, of t n env world] obtain w0 where
    l0: "only_logged w w0" and
    e: "execute_safely t n a k env (w, world)
       = handled n env (execute_safely_try t n a k env (execution_id_of n env) (w0, world))"
    by blast
  from t [OF l0] obtain w1 j where
    tr: "execute_safely_try t n a k env (execution_id_of n env) (w0, world)
           = (Raised e, j, w1, world1)"
    and l1: "only_logged w0 w1" and p: "P j"
    by blast
  have l2: "only_logged w w1" using l0 l1 by (rule only_logged_trans)
  then have h: "execution_history w1 = execution_history w" by (simp add: only_logged_fields)
  have a: "\<not> is_Exception e \<longrightarrow>
            fst (execute_safely t n a k env (w, world)) = Raised e
            \<and> only_logged w (fst (snd (execute_safely t n a k env (w, world))))
            \<and> snd (snd (execute_safely t n a k env (w, world))) = world1"
    using e tr l2 by (simp add: handled_base)
  have b: "\<forall>x. is_Exception e \<and> exn_str e = Inl x \<longrightarrow>
            fst (execute_safely t n a k env (w, world)) = Raised x
            \<and> only_logged w (fst (snd (execute_safely t n a k env (w, world))))
            \<and> snd (snd (execute_safely t n a k env (w, world))) = world1"
    using e tr l2 by (simp add: handled_undescribable)
  have c: "\<forall>m. is_Exception e \<and> exn_str e = Inr m \<longrightarrow>
            fst (execute_safely t n a k env (w, world))
              = Returned (PyStr (execution_failed_msg n m))
            \<and> (\<exists>j. P j \<and> execution_history (fst (snd (execute_safely t n a k env (w, world))))
                  = appended (new_record (execution_id_of n env) n False
                                (time_time env j - time_time env 0) (time_time env (j + 1))
                                (execution_failed_msg n m)) (execution_history w))
            \<and> snd (snd (execute_safely t n a k env (w, world))) = world1"
  proof (intro allI impI)
    fix m
    assume m: "is_Exception e \<and> exn_str e = Inr m"
    then have "execute_safely t n a k env (w, world)
        = (Returned (PyStr (execution_failed_msg n m)),
           (log_execution_error (execution_id_of n env) n (execution_failed_msg n m) w1)
             \<lparr> execution_history :=
                 appended (new_record (execution_id_of n env) n False
                             (time_time env j - time_time env 0) (time_time env (j + 1))
                             (execution_failed_msg n m))
                   (execution_history w) \<rparr>,
           world1)"
      using e tr h by (simp add: handled_exception)
    with p show "fst (execute_safely t n a k env (w, world))
              = Returned (PyStr (execution_failed_msg n m))
            \<and> (\<exists>j. P j \<and> execution_history (fst (snd (execute_safely t n a k env (w, world))))
                  = appended (new_record (execution_id_of n env) n False
                                (time_time env j - time_time env 0) (time_time env (j + 1))
                                (execution_failed_msg n m)) (execution_history w))
            \<and> snd (snd (execute_safely t n a k env (w, world))) = world1"
      by auto
  qed
  from a b c show ?thesis by blast
qed

lemma execute_reject:
  assumes "fst (validate_input n a k w) = Inr False"
    and "logger w \<longrightarrow> (\<exists>s. str_call a k = Inr s)"
  shows "fst (execute_safely t n a k env (w, world)) = Returned (PyStr (validation_failed_msg n))
     \<and> only_logged w (fst (snd (execute_safely t n a k env (w, world))))
     \<and> snd (snd (execute_safely t n a k env (w, world))) = world"
proof -
  from execute_from_try [OF assms(2), of t n env world] obtain w0 where
    l: "only_logged w w0" and
    e: "execute_safely t n a k env (w, world)
       = handled n env (execute_safely_try t n a k env (execution_id_of n env) (w0, world))"
    by blast
  have "fst (validate_input n a k w0) = Inr False"
    using assms(1) only_logged_same(1) [OF l] by simp
  from try_reject [OF this, of t env "execution_id_of n env" world] obtain w1 where
    "execute_safely_try t n a k env (execution_id_of n env) (w0, world)
       = (Returned (PyStr (validation_failed_msg n)), 1, w1, world)" and "only_logged w0 w1"
    by blast
  with l e show ?thesis
    by (auto simp: handled_value intro: only_logged_trans)
qed

lemma execute_never_returns:
  assumes "fst (validate_input n a k w) = Inr True" and "signal_setup env w = None"
    and "fst (t a k world) = NeverReturns"
  shows "fst (execute_safely t n a k env (w, world)) = Hangs
     \<and> only_logged w (fst (snd (execute_safely t n a k env (w, world))))
     \<and> snd (snd (execute_safely t n a k env (w, world))) = snd (t a k world)"
proof -
  have "logger w \<longrightarrow> (\<exists>s. str_call a k = Inr s)"
    using validate_True_renders [OF assms(1)] by simp
  from execute_from_try [OF this, of t n env world] obtain w0 where
    l: "only_logged w w0" and
    e: "execute_safely t n a k env (w, world)
       = handled n env (execute_safely_try t n a k env (execution_id_of n env) (w0, world))"
    by blast
  have "fst (validate_input n a k w0) = Inr True" and "signal_setup env w0 = None"
    using assms(1,2) only_logged_same(1,2) [OF l] by simp_all
  from try_never_returns [where t = t and world = world and e = "execution_id_of n env",
      OF this assms(3)]
  obtain w1 where
    "execute_safely_try t n a k env (execution_id_of n env) (w0, world)
       = (Hangs, 1, w1, snd (t a k world))" and "only_logged w0 w1"
    by blast
  with l e show ?thesis
    by (auto simp: handled_hangs intro: only_logged_trans)
qed

lemma execute_returns_ok:
  assumes "fst (validate_input n a k w) = Inr True" and "signal_setup env w = None"
    and "fst (t a k world) = Returns v"
    and "logger w \<longrightarrow> (\<exists>f. py_format v = Inr f)" and "py_str v = Inr s"
  shows "fst (execute_safely t n a k env (w, world)) = Returned v
     \<and> execution_history (fst (snd (execute_safely t n a k env (w, world))))
         = appended (new_record (execution_id_of n env) n True
                       (time_time env 1 - time_time env 0) (time_time env 2) s)
             (execution_history w)
     \<and> snd (snd (execute_safely t n a k env (w, world))) = snd (t a k world)"
proof -
  have "logger w \<longrightarrow> (\<exists>s. str_call a k = Inr s)"
    using validate_True_renders [OF assms(1)] by simp
  from execute_from_try [OF this, of t n env world] obtain w0 where
    l: "only_logged w w0" and
    e: "execute_safely t n a k env (w, world)
       = handled n env (execute_safely_try t n a k env (execution_id_of n env) (w0, world))"
    by blast
  have "fst (validate_input n a k w0) = Inr True" and "signal_setup env w0 = None"
    and "logger w0 \<longrightarrow> (\<exists>f. py_format v = Inr f)"
    using assms(1,2,4) only_logged_same(1,2,3) [OF l] by simp_all
  from try_returns_ok [where t = t and world = world and e = "execution_id_of n env",
      OF this(1,2) assms(3) this(3) assms(5)]
  obtain w1 where
    t: "execute_safely_try t n a k env (execution_id_of n env) (w0, world)
          = (Returned v, 3,
             w1\<lparr> execution_history :=
                   appended (new_record (execution_id_of n env) n True
                               (time_time env 1 - time_time env 0) (time_time env 2) s)
                     (execution_history w0) \<rparr>,
             snd (t a k world))"
    by blast
  have "execution_history w0 = execution_history w"
    using only_logged_fields [OF l] by simp
  with e t show ?thesis
    by (simp add: handled_value del: One_nat_def)
qed


lemma execute_of_raised_history:
  assumes l: "logger w \<longrightarrow> (\<exists>s. str_call a k = Inr s)"
    and t: "\<And>w0. only_logged w w0 \<Longrightarrow>
              \<exists>w1 j. execute_safely_try t n a k env (execution_id_of n env) (w0, world)
                        = (Raised e, j, w1, world1) \<and> only_logged w0 w1"
  shows "(case fst (execute_safely t n a k env (w, world)) of
            Returned v \<Rightarrow> \<exists>r. execution_history (fst (snd (execute_safely t n a k env (w, world))))
                          = appended r (execution_history w)
          | Raised x \<Rightarrow> execution_history (fst (snd (execute_safely t n a k env (w, world))))
                          = execution_history w
          | Hangs \<Rightarrow> execution_history (fst (snd (execute_safely t n a k env (w, world))))
                          = execution_history w)
     \<and> snd (snd (execute_safely t n a k env (w, world))) = world1"
proof -
  have t': "\<And>w0. only_logged w w0 \<Longrightarrow>
              \<exists>w1 j. execute_safely_try t n a k env (execution_id_of n env) (w0, world)
                        = (Raised e, j, w1, world1) \<and> only_logged w0 w1 \<and> True"
    using t by simp
  note r = execute_of_raised [where P = "\<lambda>j. True", OF l t']
  show ?thesis
  proof (cases "is_Exception e")
    case False
    with r show ?thesis using only_logged_fields by fastforce
  next
    case True
    show ?thesis
    proof (cases "exn_str e")
      case (Inl x)
      with True r show ?thesis using only_logged_fields by fastforce
    next
      case (Inr m)
      with True r show ?thesis by auto
    qed
  qed
qed

lemma execute_of_raised_describable:
  assumes l: "logger w \<longrightarrow> (\<exists>s. str_call a k = Inr s)"
    and t: "\<And>w0. only_logged w w0 \<Longrightarrow>
              \<exists>w1 j. execute_safely_try t n a k env (execution_id_of n env) (w0, world)
                        = (Raised e, j, w1, world1) \<and> only_logged w0 w1"
    and d: "describable e"
  shows "\<exists>v. fst (execute_safely t n a k env (w, world)) = Returned v"
proof -
  have t': "\<And>w0. only_logged w w0 \<Longrightarrow>
              \<exists>w1 j. execute_safely_try t n a k env (execution_id_of n env) (w0, world)
                        = (Raised e, j, w1, world1) \<and> only_logged w0 w1 \<and> True"
    using t by simp
  from d obtain m where "is_Exception e" and "exn_str e = Inr m"
    by (auto simp: describable_def split: sum.splits)
  with execute_of_raised [where P = "\<lambda>j. True", OF l t'] show ?thesis by blast
qed

text \<open>What the body of the try gives on each path, for any state that differs from \<open>w\<close> in
  the lines logged.\<close>

lemma try_of_validate_fault:
  assumes "fst (validate_input n a k w) = Inl x" and "only_logged w w0"
  shows "\<exists>w1 j. execute_safely_try t n a k env e (w0, world) = (Raised x, j, w1, world)
            \<and> only_logged w0 w1"
  using try_validate_fault [of n a k w0 x t env e world] assms only_logged_same(1) [OF assms(2)]
  by auto

lemma try_of_setup_fault:
  assumes "fst (validate_input n a k w) = Inr True" and "signal_setup env w = Some x"
    and "only_logged w w0"
  shows "\<exists>w1 j. execute_safely_try t n a k env e (w0, world) = (Raised x, j, w1, world)
            \<and> only_logged w0 w1"
  using try_setup_fault [of n a k w0 env x t e world] assms only_logged_same(1,2) [OF assms(3)]
  by auto

lemma try_of_raises:
  assumes "fst (validate_input n a k w) = Inr True" and "signal_setup env w = None"
    and "fst (t a k world) = Raises x" and "only_logged w w0"
  shows "\<exists>w1 j. execute_safely_try t n a k env e (w0, world)
              = (Raised x, j, w1, snd (t a k world))
            \<and> only_logged w0 w1 \<and> j = 1"
proof -
  have "fst (validate_input n a k w0) = Inr True" and "signal_setup env w0 = None"
    using assms(1,2) only_logged_same(1,2) [OF assms(4)] by simp_all
  from try_raises [where t = t and world = world and e = e, OF this assms(3)]
  show ?thesis by auto
qed

lemma try_of_times_out:
  assumes "fst (validate_input n a k w) = Inr True" and "signal_setup env w = None"
    and "fst (t a k world) = TimesOut" and "only_logged w w0"
  shows "\<exists>w1 j. execute_safely_try t n a k env e (w0, world)
              = (Raised (exception (timeout_msg w)), j, w1, snd (t a k world))
            \<and> only_logged w0 w1 \<and> j = 1"
proof -
  have "fst (validate_input n a k w0) = Inr True" and "signal_setup env w0 = None"
    using assms(1,2) only_logged_same(1,2) [OF assms(4)] by simp_all
  from try_times_out [where t = t and world = world and e = e, OF this assms(3)]
  show ?thesis using only_logged_same(5) [OF assms(4)] by auto
qed

lemma try_of_returns_fault:
  assumes "fst (validate_input n a k w) = Inr True" and "signal_setup env w = None"
    and "fst (t a k world) = Returns v"
    and "(logger w \<and> py_format v = Inl x)
         \<or> ((logger w \<longrightarrow> (\<exists>f. py_format v = Inr f)) \<and> py_str v = Inl x)"
    and "only_logged w w0"
  shows "\<exists>w1 j. execute_safely_try t n a k env e (w0, world)
              = (Raised x, j, w1, snd (t a k world))
            \<and> only_logged w0 w1"
proof -
  have "fst (validate_input n a k w0) = Inr True" and "signal_setup env w0 = None"
    and "(logger w0 \<and> py_format v = Inl x)
         \<or> ((logger w0 \<longrightarrow> (\<exists>f. py_format v = Inr f)) \<and> py_str v = Inl x)"
    using assms(1,2,4) only_logged_same(1,2,3) [OF assms(5)] by simp_all
  from try_returns_fault [where t = t and world = world and e = e, OF this(1,2) assms(3) this(3)]
  show ?thesis .
qed

lemma result_fault_cases:
  obtains (ok) s where "logger w \<longrightarrow> (\<exists>f. py_format v = Inr f)" and "py_str v = Inr s"
  | (fault) x where "(logger w \<and> py_format v = Inl x)
         \<or> ((logger w \<longrightarrow> (\<exists>f. py_format v = Inr f)) \<and> py_str v = Inl x)"
    and "py_format v = Inl x \<or> py_str v = Inl x"
proof (cases "logger w \<and> (\<exists>x. py_format v = Inl x)")
  case True
  then show ?thesis using fault by blast
next
  case False
  then have f: "logger w \<longrightarrow> (\<exists>f. py_format v = Inr f)"
    by (cases "py_format v") auto
  show ?thesis
  proof (cases "py_str v")
    case (Inl x)
    with f show ?thesis using fault by blast
  next
    case (Inr s)
    with f show ?thesis using ok by blast
  qed
qed

subsection \<open>The ledger and the world after a call\<close>

lemma execute_history_rejected:
  assumes "fst (validate_input n a k w) = Inr False"
  shows "execution_history (fst (snd (execute_safely t n a k env (w, world)))) = execution_history w"
proof (cases "logger w \<longrightarrow> (\<exists>s. str_call a k = Inr s)")
  case True
  then show ?thesis
    using execute_reject [OF assms True, of t env world] only_logged_fields by blast
next
  case False
  then obtain x where "logger w" and "str_call a k = Inl x"
    by (cases "str_call a k") auto
  then show ?thesis
    by (simp add: execute_log_start_fault emit_def)
qed


lemma execute_history_other:
  assumes v: "fst (validate_input n a k w) \<noteq> Inr False"
  shows "(case fst (execute_safely t n a k env (w, world)) of
            Returned v \<Rightarrow> \<exists>r. execution_history (fst (snd (execute_safely t n a k env (w, world))))
                          = appended r (execution_history w)
          | Raised x \<Rightarrow> execution_history (fst (snd (execute_safely t n a k env (w, world))))
                          = execution_history w
          | Hangs \<Rightarrow> execution_history (fst (snd (execute_safely t n a k env (w, world))))
                          = execution_history w)"
proof (cases "logger w \<longrightarrow> (\<exists>s. str_call a k = Inr s)")
  case False
  then obtain x where "logger w" and "str_call a k = Inl x"
    by (cases "str_call a k") auto
  then show ?thesis
    by (simp add: execute_log_start_fault emit_def)
next
  case l: True
  show ?thesis
  proof (cases "fst (validate_input n a k w)")
    case (Inl x)
    have "\<exists>w1 j. execute_safely_try t n a k env (execution_id_of n env) (w0, world)
            = (Raised x, j, w1, world) \<and> only_logged w0 w1"
      if "only_logged w w0" for w0
      using try_of_validate_fault [OF Inl that] .
    from execute_of_raised_history [OF l this, THEN conjunct1] show ?thesis .
  next
    case (Inr b)
    with v have vt: "fst (validate_input n a k w) = Inr True" by simp
    show ?thesis
    proof (cases "signal_setup env w")
      case (Some x)
      have "\<exists>w1 j. execute_safely_try t n a k env (execution_id_of n env) (w0, world)
              = (Raised x, j, w1, world) \<and> only_logged w0 w1"
        if "only_logged w w0" for w0
        using try_of_setup_fault [OF vt Some that] .
      from execute_of_raised_history [OF l this, THEN conjunct1] show ?thesis .
    next
      case None
      show ?thesis
      proof (cases "fst (t a k world)")
        case (Returns r)
        show ?thesis
        proof (cases rule: result_fault_cases [of w r])
          case (ok s)
          note h = execute_returns_ok [where t = t and world = world, OF vt None Returns ok]
          then show ?thesis by simp blast
        next
          case (fault x)
          have "\<exists>w1 j. execute_safely_try t n a k env (execution_id_of n env) (w0, world)
                  = (Raised x, j, w1, snd (t a k world)) \<and> only_logged w0 w1"
            if "only_logged w w0" for w0
            using try_of_returns_fault [where t = t and world = world, OF vt None Returns
                fault(1) that] .
          from execute_of_raised_history [OF l this, THEN conjunct1] show ?thesis .
        qed
      next
        case (Raises x)
        have "\<exists>w1 j. execute_safely_try t n a k env (execution_id_of n env) (w0, world)
                = (Raised x, j, w1, snd (t a k world)) \<and> only_logged w0 w1"
          if "only_logged w w0" for w0
          using try_of_raises [where t = t and world = world, OF vt None Raises that] by blast
        from execute_of_raised_history [OF l this, THEN conjunct1] show ?thesis .
      next
        case TimesOut
        have "\<exists>w1 j. execute_safely_try t n a k env (execution_id_of n env) (w0, world)
                = (Raised (exception (timeout_msg w)), j, w1, snd (t a k world))
                  \<and> only_logged w0 w1"
          if "only_logged w w0" for w0
          using try_of_times_out [where t = t and world = world, OF vt None TimesOut that]
          by blast
        from execute_of_raised_history [OF l this, THEN conjunct1] show ?thesis .
      next
        case NeverReturns
        note h = execute_never_returns [where t = t and world = world, OF vt None NeverReturns]
        then have "execution_history (fst (snd (execute_safely t n a k env (w, world))))
            = execution_history w"
          using only_logged_fields by blast
        with h show ?thesis by simp
      qed
    qed
  qed
qed




lemma validate_rendered:
  "str_call a k = Inr s \<Longrightarrow> \<exists>b. fst (validate_input n a k w) = Inr b"
  by (auto simp: validate_input_def validate_input_try_def split: option.splits)


lemma validate_unrenderable:
  "str_call a k = Inl e \<Longrightarrow> is_Exception e \<Longrightarrow> exn_format e = Inr m \<Longrightarrow>
   fst (validate_input n a k w) = Inr False"
  by (simp add: validate_input_def validate_input_try_def)


lemma execute_returns_when_contained:
  assumes acc: "accepted_arguments (logger w) a k"
    and run: "contained_run (fst (t a k world))"
  shows "\<exists>v. fst (execute_safely t n a k env (w, world)) = Returned v"
proof -
  have l: "logger w \<longrightarrow> (\<exists>s. str_call a k = Inr s)"
    using acc by (auto simp: accepted_arguments_def split: sum.splits)
  have "\<exists>b. fst (validate_input n a k w) = Inr b"
  proof (cases "str_call a k")
    case (Inl e)
    with acc obtain m where "is_Exception e" and "exn_format e = Inr m"
      by (auto simp: accepted_arguments_def split: sum.splits)
    with Inl show ?thesis using validate_unrenderable by blast
  next
    case (Inr s)
    then show ?thesis by (rule validate_rendered)
  qed
  then obtain b where vb: "fst (validate_input n a k w) = Inr b" by blast
  show ?thesis
  proof (cases b)
    case False
    with vb have "fst (validate_input n a k w) = Inr False" by simp
    from execute_reject [where t = t and env = env and world = world, OF this l]
    show ?thesis by simp
  next
    case True
    with vb have vt: "fst (validate_input n a k w) = Inr True" by simp
    show ?thesis
    proof (cases "signal_setup env w")
      case (Some x)
      have "\<exists>w1 j. execute_safely_try t n a k env (execution_id_of n env) (w0, world)
              = (Raised x, j, w1, world) \<and> only_logged w0 w1"
        if "only_logged w w0" for w0
        using try_of_setup_fault [OF vt Some that] .
      from execute_of_raised_describable [OF l this signal_setup_describable [OF Some]]
      show ?thesis .
    next
      case None
      show ?thesis
      proof (cases "fst (t a k world)")
        case (Returns r)
        with run have c: "contained (py_format r)" "contained (py_str r)"
          by (simp_all add: contained_run_def)
        show ?thesis
        proof (cases rule: result_fault_cases [of w r])
          case (ok s)
          note h = execute_returns_ok [where t = t and world = world, OF vt None Returns ok]
          then show ?thesis by simp
        next
          case (fault x)
          have d: "describable x"
            using fault(2) c by (auto simp: contained_def)
          have "\<exists>w1 j. execute_safely_try t n a k env (execution_id_of n env) (w0, world)
                  = (Raised x, j, w1, snd (t a k world)) \<and> only_logged w0 w1"
            if "only_logged w w0" for w0
            using try_of_returns_fault [where t = t and world = world, OF vt None Returns
                fault(1) that] .
          from execute_of_raised_describable [OF l this d] show ?thesis .
        qed
      next
        case (Raises x)
        with run have d: "describable x" by (simp add: contained_run_def)
        have "\<exists>w1 j. execute_safely_try t n a k env (execution_id_of n env) (w0, world)
                = (Raised x, j, w1, snd (t a k world)) \<and> only_logged w0 w1"
          if "only_logged w w0" for w0
          using try_of_raises [where t = t and world = world, OF vt None Raises that] by blast
        from execute_of_raised_describable [OF l this d] show ?thesis .
      next
        case TimesOut
        have d: "describable (exception (timeout_msg w))"
          by (simp add: describable_def exception_def)
        have "\<exists>w1 j. execute_safely_try t n a k env (execution_id_of n env) (w0, world)
                = (Raised (exception (timeout_msg w)), j, w1, snd (t a k world))
                  \<and> only_logged w0 w1"
          if "only_logged w w0" for w0
          using try_of_times_out [where t = t and world = world, OF vt None TimesOut that]
          by blast
        from execute_of_raised_describable [OF l this d] show ?thesis .
      next
        case NeverReturns
        with run show ?thesis by (simp add: contained_run_def)
      qed
    qed
  qed
qed


lemma execute_raises_exception:
  assumes vt: "fst (validate_input n a k w) = Inr True" and su: "signal_setup env w = None"
    and r: "fst (t a k world) = Raises e" and e: "is_Exception e" "exn_str e = Inr m"
  shows "fst (execute_safely t n a k env (w, world)) = Returned (PyStr (execution_failed_msg n m))
     \<and> execution_history (fst (snd (execute_safely t n a k env (w, world))))
         = appended (new_record (execution_id_of n env) n False
                       (time_time env 1 - time_time env 0) (time_time env 2)
                       (execution_failed_msg n m)) (execution_history w)
     \<and> snd (snd (execute_safely t n a k env (w, world))) = snd (t a k world)"
proof -
  have l: "logger w \<longrightarrow> (\<exists>s. str_call a k = Inr s)"
    using validate_True_renders [OF vt] by simp
  have "\<exists>w1 j. execute_safely_try t n a k env (execution_id_of n env) (w0, world)
          = (Raised e, j, w1, snd (t a k world)) \<and> only_logged w0 w1 \<and> j = 1"
    if "only_logged w w0" for w0
    using try_of_raises [where t = t and world = world, OF vt su r that] .
  from execute_of_raised [where P = "\<lambda>j. j = 1", OF l this] e show ?thesis
    by (auto simp del: One_nat_def)
qed


lemma execute_times_out:
  assumes vt: "fst (validate_input n a k w) = Inr True" and su: "signal_setup env w = None"
    and r: "fst (t a k world) = TimesOut"
  shows "fst (execute_safely t n a k env (w, world))
           = Returned (PyStr (execution_failed_msg n (timeout_msg w)))
     \<and> execution_history (fst (snd (execute_safely t n a k env (w, world))))
         = appended (new_record (execution_id_of n env) n False
                       (time_time env 1 - time_time env 0) (time_time env 2)
                       (execution_failed_msg n (timeout_msg w))) (execution_history w)
     \<and> snd (snd (execute_safely t n a k env (w, world))) = snd (t a k world)"
proof -
  have l: "logger w \<longrightarrow> (\<exists>s. str_call a k = Inr s)"
    using validate_True_renders [OF vt] by simp
  have e: "is_Exception (exception (timeout_msg w))"
    "exn_str (exception (timeout_msg w)) = Inr (timeout_msg w)"
    by (simp_all add: exception_def)
  have "\<exists>w1 j. execute_safely_try t n a k env (execution_id_of n env) (w0, world)
          = (Raised (exception (timeout_msg w)), j, w1, snd (t a k world))
            \<and> only_logged w0 w1 \<and> j = 1"
    if "only_logged w w0" for w0
    using try_of_times_out [where t = t and world = world, OF vt su r that] .
  from execute_of_raised [where P = "\<lambda>j. j = 1", OF l this] e show ?thesis
    by (auto simp del: One_nat_def)
qed

subsection \<open>Concrete calls\<close>

lemma str_call_five: "str_call [PyInt 5] [] = Inr ''(5,){}''"
  by code_simp

lemma str_call_none: "str_call [] [] = Inr ''(){}''"
  by code_simp

lemma str_call_import: "str_call [PyStr ''import os''] [] = Inr ''('import os',){}''"
  by code_simp

lemma validate_five: "fst (validate_input n [PyInt 5] [] w) = Inr True"
  by (simp add: validate_input_def validate_input_try_def str_call_five dangerous_patterns_def)

lemma validate_none: "fst (validate_input n [] [] w) = Inr True"
  by (simp add: validate_input_def validate_input_try_def str_call_none dangerous_patterns_def)

lemma validate_import: "fst (validate_input n [PyStr ''import os''] [] w) = Inr False"
  by (simp add: validate_input_def validate_input_try_def str_call_import dangerous_patterns_def)

lemma validate_eleven: "fst (validate_input n (replicate 11 (PyInt 1)) [] w) = Inr False"
  by (simp add: validate_input_def validate_input_try_def)

lemma py_str_int_30: "py_str_int 30 = ''30''"
  by code_simp

lemma py_str_int_10: "py_str_int 10 = ''10''"
  by code_simp

lemma py_str_int_100: "py_str_int 100 = ''100''"
  by code_simp

lemma history_init: "execution_history (init l) = []"
  by (simp add: init_def)

lemma signal_setup_init: "signal_setup env0 (init l) = None"
  by (simp add: signal_setup_def env0_def init_def)

lemma double_five: "fst (execute_safely double ''Double'' [PyInt 5] [] env0 (init False, 0))
    = Returned (PyInt 10)"
  by code_simp

lemma validation_rejects:
  assumes "length a > 10 \<or> length k > 20
     \<or> (\<exists>s p. str_call a k = Inr s \<and> p \<in> set dangerous_patterns \<and> py_in p s)"
  shows "fst (validate_input n a k w) = Inr False"
proof (cases "length a > 10 \<or> length k > 20")
  case True
  then show ?thesis
    by (auto simp: validate_input_def validate_input_try_def)
next
  case False
  with assms obtain s p where s: "str_call a k = Inr s"
    and p: "p \<in> set dangerous_patterns" "py_in p s"
    by blast
  then have "find (\<lambda>p. py_in p s) dangerous_patterns \<noteq> None"
    by (auto simp: find_None_iff)
  then obtain q where "find (\<lambda>p. py_in p s) dangerous_patterns = Some q"
    by blast
  with False s show ?thesis
    by (simp add: validate_input_def validate_input_try_def)
qed

lemma execute_safely_rejects:
  assumes "length a > 10 \<or> length k > 20
     \<or> (\<exists>s p. str_call a k = Inr s \<and> p \<in> set dangerous_patterns \<and> py_in p s)"
    and "logger w \<longrightarrow> (\<exists>s. str_call a k = Inr s)"
  shows "fst (execute_safely t n a k env (w, world)) = Returned (PyStr (validation_failed_msg n))
     \<and> execution_history (fst (snd (execute_safely t n a k env (w, world)))) = execution_history w
     \<and> snd (snd (execute_safely t n a k env (w, world))) = world"
  using execute_reject [where n = n and t = t and env = env and world = world,
      OF validation_rejects [OF assms(1)] assms(2)]
    only_logged_fields
  by blast

lemma get_recent_executions_positive:
  "0 < limit \<Longrightarrow>
   get_recent_executions limit w
     = drop (length (execution_history w) - nat limit) (execution_history w)"
  by (auto simp: get_recent_executions_def py_slice_from_def nat_diff_distrib')

lemma get_recent_executions_cleared:
  "get_recent_executions limit (clear_execution_history w) = []"
  by (simp add: get_recent_executions_def clear_execution_history_def)

lemma execute_length:
  assumes "length (execution_history w) \<le> 1000"
  shows "length (execution_history (fst (snd (execute_safely t n a k env (w, world))))) \<le> 1000"
proof (cases "fst (validate_input n a k w) = Inr False")
  case True
  then show ?thesis using assms by (simp add: execute_history_rejected)
next
  case False
  note h = execute_history_other [OF False, of t env world]
  show ?thesis
  proof (cases "fst (execute_safely t n a k env (w, world))")
    case (Returned v)
    with h obtain r where "execution_history (fst (snd (execute_safely t n a k env (w, world))))
        = appended r (execution_history w)"
      by auto
    then show ?thesis using assms by (simp add: length_appended)
  next
    case (Raised x)
    with h show ?thesis using assms by simp
  next
    case Hangs
    with h show ?thesis using assms by simp
  qed
qed

lemma apply_operation_length:
  assumes "length (execution_history (fst s)) \<le> 1000"
  shows "length (execution_history (fst (apply_operation x s))) \<le> 1000"
proof (cases s)
  case (Pair w world)
  with assms show ?thesis
    by (cases x)
       (simp_all add: execute_length clear_execution_history_def set_max_execution_time_def
          set_max_memory_usage_def)
qed

lemma run_length:
  "length (execution_history (fst s)) \<le> 1000 \<Longrightarrow>
   length (execution_history (fst (run ops s))) \<le> 1000"
  by (induction ops arbitrary: s) (simp_all add: apply_operation_length)

lemma record_attempt_history:
  "execution_history (record_attempt x w) = appended (record_of_attempt x) (execution_history w)"
  by (cases x) (simp add: record_attempt_def record_of_attempt_def record_execution_ok)

lemma fold_record_attempt:
  "length (execution_history w) \<le> 1000 \<Longrightarrow>
   execution_history (fold record_attempt xs w)
     = drop (length (execution_history w) + length xs - 1000)
         (execution_history w @ map record_of_attempt xs)"
proof (induction xs arbitrary: w)
  case Nil
  then show ?case by simp
next
  case (Cons x xs)
  let ?h = "execution_history w"
  let ?h' = "execution_history (record_attempt x w)"
  have h': "?h' = appended (record_of_attempt x) ?h" by (rule record_attempt_history)
  then have len: "length ?h' \<le> 1000" using Cons.prems by (simp add: length_appended)
  have "execution_history (fold record_attempt (x # xs) w)
      = drop (length ?h' + length xs - 1000) (?h' @ map record_of_attempt xs)"
    using Cons.IH [OF len] by simp
  also have "\<dots> = drop (length ?h + length (x # xs) - 1000)
      (?h @ map record_of_attempt (x # xs))"
  proof (cases "length ?h < 1000")
    case True
    then have "?h' = ?h @ [record_of_attempt x]" by (simp add: h' appended_def)
    then show ?thesis by simp
  next
    case False
    with Cons.prems have l: "length ?h = 1000" by simp
    then have "?h' = drop 1 (?h @ [record_of_attempt x])" by (simp add: h' appended_def)
    then have "?h' @ map record_of_attempt xs = drop 1 (?h @ map record_of_attempt (x # xs))"
      using l by simp
    moreover have "length ?h' = 1000" using l by (simp add: h' appended_def)
    ultimately show ?thesis using l by simp
  qed
  finally show ?case .
qed

lemma signal_setup_None:
  "signal_setup env w = None
     \<longleftrightarrow> main_thread env \<and> - (2 ^ 31) \<le> max_execution_time w
         \<and> max_execution_time w \<le> 2 ^ 31 - 1"
  by (auto simp: signal_setup_def)

lemma execute_history_base_fault:
  assumes v: "fst (validate_input n a k w) = Inl e" and b: "\<not> is_Exception e"
  shows "execution_history (fst (snd (execute_safely t n a k env (w, world)))) = execution_history w"
proof (cases "logger w \<longrightarrow> (\<exists>s. str_call a k = Inr s)")
  case True
  from execute_from_try [where t = t and env = env and world = world and n = n, OF True]
  obtain w0 where l: "only_logged w w0"
    and x: "execute_safely t n a k env (w, world)
       = handled n env (execute_safely_try t n a k env (execution_id_of n env) (w0, world))"
    by blast
  from try_of_validate_fault [where t = t and env = env and world = world
      and e = "execution_id_of n env", OF v l]
  obtain w1 j where y: "execute_safely_try t n a k env (execution_id_of n env) (w0, world)
        = (Raised e, j, w1, world)" and l1: "only_logged w0 w1"
    by blast
  have "execute_safely t n a k env (w, world) = (Raised e, w1, world)"
    unfolding x y using b by (rule handled_base)
  then show ?thesis
    using only_logged_fields [OF l] only_logged_fields [OF l1] by simp
next
  case False
  then obtain x where "logger w" and "str_call a k = Inl x"
    by (cases "str_call a k") auto
  then have "execute_safely t n a k env (w, world) = (Raised x, emit INFO w, world)"
    by (rule execute_log_start_fault)
  then show ?thesis by (simp add: emit_def)
qed

lemma time_time_env0: "time_time env0 k = 100 + of_nat k / 2"
  by (simp add: env0_def)

lemma max_execution_time_init: "max_execution_time (init l) = 30"
  by (simp add: init_def)

section \<open>The claims\<close>

text \<open>
  C1, as the code has it. Let the arguments be ones the wrapper can take in (they render,
  or there is no logger and the fault of rendering them is an \<^verbatim>\<open>Exception\<close> that can
  be formatted), and let the run of the callable end, with faults (its own, and those of
  formatting and rendering the value it returns) that are instances of \<^verbatim>\<open>Exception\<close>
  whose \<^verbatim>\<open>str\<close> returns. Then \<^verbatim>\<open>execute_safely\<close> returns a value: no fault leaves it.
  A call that validation rejects returns the string
  \<^verbatim>\<open>Input validation failed for tool <name>\<close>. Let further the alarm be set, that is the
  call be made on the main thread with a deadline that fits a C \<^verbatim>\<open>int\<close>. A valid call
  whose callable raises a fault that \<^verbatim>\<open>str\<close> describes by \<open>m\<close> returns
  \<^verbatim>\<open>Tool <name> execution failed: <m>\<close> and appends a record with \<^verbatim>\<open>success = False\<close>
  that holds the first 1000 characters of that string; a valid call that times out
  returns the same string for the description the timeout handler gives. A valid call
  whose callable returns a value that the logger, if there is one, can format and that
  \<^verbatim>\<open>str\<close> renders returns that value. Each error string contains the tool name, and the
  second one the description of the fault.
\<close>

theorem execute_safely_contains_exceptions:
  assumes "accepted_arguments (logger w) args kw"
    and "contained_run (fst (tool_func args kw world))"
  shows
    "(\<exists>v. fst (execute_safely tool_func tool_name args kw env (w, world)) = Returned v)
     \<and> (fst (validate_input tool_name args kw w) = Inr False \<longrightarrow>
          fst (execute_safely tool_func tool_name args kw env (w, world))
            = Returned (PyStr (''Input validation failed for tool '' @ tool_name)))
     \<and> (fst (validate_input tool_name args kw w) = Inr True \<and> signal_setup env w = None
          \<and> fst (tool_func args kw world) = Raises e \<and> exn_str e = Inr m \<longrightarrow>
          fst (execute_safely tool_func tool_name args kw env (w, world))
            = Returned (PyStr (''Tool '' @ tool_name @ '' execution failed: '' @ m))
          \<and> execution_history (fst (snd (execute_safely tool_func tool_name args kw env (w, world))))
            = drop (Suc (length (execution_history w)) - 1000)
                (execution_history w @
                 [\<lparr> er_id = tool_name @ ''_'' @ py_str_int (py_int (time_time env 0)),
                    er_tool_name = tool_name, er_success = False,
                    er_execution_time = time_time env 1 - time_time env 0,
                    er_timestamp = time_time env 2,
                    er_result = take 1000 (''Tool '' @ tool_name @ '' execution failed: '' @ m) \<rparr>]))
     \<and> (fst (validate_input tool_name args kw w) = Inr True \<and> signal_setup env w = None
          \<and> fst (tool_func args kw world) = TimesOut \<longrightarrow>
          fst (execute_safely tool_func tool_name args kw env (w, world))
            = Returned (PyStr (''Tool '' @ tool_name @ '' execution failed: ''
                @ ''Tool execution timed out after '' @ py_str_int (max_execution_time w)
                @ '' seconds'')))
     \<and> (fst (validate_input tool_name args kw w) = Inr True \<and> signal_setup env w = None
          \<and> fst (tool_func args kw world) = Returns v
          \<and> (logger w \<longrightarrow> (\<exists>f. py_format v = Inr f)) \<and> py_str v = Inr s \<longrightarrow>
          fst (execute_safely tool_func tool_name args kw env (w, world)) = Returned v)
     \<and> py_in tool_name (''Input validation failed for tool '' @ tool_name)
     \<and> py_in tool_name (''Tool '' @ tool_name @ '' execution failed: '' @ m)
     \<and> py_in m (''Tool '' @ tool_name @ '' execution failed: '' @ m)"
proof -
  have l: "logger w \<longrightarrow> (\<exists>s. str_call args kw = Inr s)"
    using assms(1) by (auto simp: accepted_arguments_def split: sum.splits)
  have a: "\<exists>v. fst (execute_safely tool_func tool_name args kw env (w, world)) = Returned v"
    using assms by (rule execute_returns_when_contained)
  have b: "fst (validate_input tool_name args kw w) = Inr False \<longrightarrow>
          fst (execute_safely tool_func tool_name args kw env (w, world))
            = Returned (PyStr (''Input validation failed for tool '' @ tool_name))"
    using execute_reject [where t = tool_func and env = env and world = world
        and n = tool_name and a = args and k = kw and w = w] l
    by (simp add: validation_failed_msg_def)
  have c: "fst (validate_input tool_name args kw w) = Inr True \<and> signal_setup env w = None
          \<and> fst (tool_func args kw world) = Raises e \<and> exn_str e = Inr m \<longrightarrow>
          fst (execute_safely tool_func tool_name args kw env (w, world))
            = Returned (PyStr (''Tool '' @ tool_name @ '' execution failed: '' @ m))
          \<and> execution_history (fst (snd (execute_safely tool_func tool_name args kw env (w, world))))
            = drop (Suc (length (execution_history w)) - 1000)
                (execution_history w @
                 [\<lparr> er_id = tool_name @ ''_'' @ py_str_int (py_int (time_time env 0)),
                    er_tool_name = tool_name, er_success = False,
                    er_execution_time = time_time env 1 - time_time env 0,
                    er_timestamp = time_time env 2,
                    er_result = take 1000 (''Tool '' @ tool_name @ '' execution failed: '' @ m) \<rparr>])"
  proof (intro impI)
    assume h: "fst (validate_input tool_name args kw w) = Inr True \<and> signal_setup env w = None
          \<and> fst (tool_func args kw world) = Raises e \<and> exn_str e = Inr m"
    with assms(2) have "is_Exception e"
      by (simp add: contained_run_def describable_def)
    with h show "fst (execute_safely tool_func tool_name args kw env (w, world))
            = Returned (PyStr (''Tool '' @ tool_name @ '' execution failed: '' @ m))
          \<and> execution_history (fst (snd (execute_safely tool_func tool_name args kw env (w, world))))
            = drop (Suc (length (execution_history w)) - 1000)
                (execution_history w @
                 [\<lparr> er_id = tool_name @ ''_'' @ py_str_int (py_int (time_time env 0)),
                    er_tool_name = tool_name, er_success = False,
                    er_execution_time = time_time env 1 - time_time env 0,
                    er_timestamp = time_time env 2,
                    er_result = take 1000 (''Tool '' @ tool_name @ '' execution failed: '' @ m) \<rparr>])"
      using execute_raises_exception [where t = tool_func and world = world and env = env
          and n = tool_name and a = args and k = kw and w = w and e = e and m = m]
      by (simp add: appended_unfold execution_failed_msg_def execution_id_of_def
            del: One_nat_def)
  qed
  have d: "fst (validate_input tool_name args kw w) = Inr True \<and> signal_setup env w = None
          \<and> fst (tool_func args kw world) = TimesOut \<longrightarrow>
          fst (execute_safely tool_func tool_name args kw env (w, world))
            = Returned (PyStr (''Tool '' @ tool_name @ '' execution failed: ''
                @ ''Tool execution timed out after '' @ py_str_int (max_execution_time w)
                @ '' seconds''))"
    using execute_times_out [where t = tool_func and world = world and env = env
          and n = tool_name and a = args and k = kw and w = w]
    by (simp add: execution_failed_msg_def timeout_msg_def)
  have e: "fst (validate_input tool_name args kw w) = Inr True \<and> signal_setup env w = None
          \<and> fst (tool_func args kw world) = Returns v
          \<and> (logger w \<longrightarrow> (\<exists>f. py_format v = Inr f)) \<and> py_str v = Inr s \<longrightarrow>
          fst (execute_safely tool_func tool_name args kw env (w, world)) = Returned v"
    using execute_returns_ok [where t = tool_func and world = world and env = env
          and n = tool_name and a = args and k = kw and w = w and v = v and s = s]
    by simp
  have f: "py_in tool_name (''Input validation failed for tool '' @ tool_name)"
    using py_in_append [of tool_name "''Input validation failed for tool ''" "[]"] by simp
  have g: "py_in tool_name (''Tool '' @ tool_name @ '' execution failed: '' @ m)"
    by (rule py_in_append)
  have h: "py_in m (''Tool '' @ tool_name @ '' execution failed: '' @ m)"
    using py_in_append [of m "''Tool '' @ tool_name @ '' execution failed: ''" "[]"] by simp
  from a b c d e f g h show ?thesis by blast
qed

theorem execute_safely_contains_exceptions_witness:
  "fst (execute_safely failing ''T'' [PyInt 5] [] env0 (init True, 0))
     = Returned (PyStr ''Tool T execution failed: boom'')
   \<and> execution_history (fst (snd (execute_safely failing ''T'' [PyInt 5] [] env0 (init True, 0))))
     = [\<lparr> er_id = ''T_100'', er_tool_name = ''T'', er_success = False,
          er_execution_time = 1 / 2, er_timestamp = 101,
          er_result = ''Tool T execution failed: boom'' \<rparr>]
   \<and> fst (execute_safely double ''T'' [PyStr ''import os''] [] env0 (init True, 0))
     = Returned (PyStr ''Input validation failed for tool T'')
   \<and> fst (execute_safely sleeper ''T'' [] [] env0 (init True, 0))
     = Returned (PyStr ''Tool T execution failed: Tool execution timed out after 30 seconds'')
   \<and> fst (execute_safely double ''Double'' [PyInt 5] [] env0 (init True, 0)) = Returned (PyInt 10)"
proof -
  have r5: "accepted_arguments (logger (init True)) [PyInt 5] []"
    by (simp add: accepted_arguments_def str_call_five)
  have r0: "accepted_arguments (logger (init True)) [] []"
    by (simp add: accepted_arguments_def str_call_none)
  have ri: "accepted_arguments (logger (init True)) [PyStr ''import os''] []"
    by (simp add: accepted_arguments_def str_call_import)
  have cf: "contained_run (fst (failing [PyInt 5] [] (0::nat)))"
    by (simp add: failing_def contained_run_def describable_def exception_def)
  have ci: "contained_run (fst (double [PyStr ''import os''] [] (0::nat)))"
    by (simp add: double_def contained_run_def describable_def exception_def)
  have cs: "contained_run (fst (sleeper [] [] (0::nat)))"
    by (simp add: sleeper_def contained_run_def)
  have cd: "contained_run (fst (double [PyInt 5] [] (0::nat)))"
    by (simp add: double_def contained_run_def contained_def)
  have "fst (execute_safely failing ''T'' [PyInt 5] [] env0 (init True, 0))
     = Returned (PyStr ''Tool T execution failed: boom'')
   \<and> execution_history (fst (snd (execute_safely failing ''T'' [PyInt 5] [] env0 (init True, 0))))
     = [\<lparr> er_id = ''T_100'', er_tool_name = ''T'', er_success = False,
          er_execution_time = 1 / 2, er_timestamp = 101,
          er_result = ''Tool T execution failed: boom'' \<rparr>]"
    using execute_safely_contains_exceptions
      [where tool_func = failing and tool_name = "''T''" and env = env0
         and world = "0::nat" and e = "exception ''boom''" and m = "''boom''", OF r5 cf]
    by (simp add: validate_five signal_setup_init failing_def exception_def history_init
          py_int_def py_str_int_100 time_time_env0)
  moreover have "fst (execute_safely double ''T'' [PyStr ''import os''] [] env0 (init True, 0))
     = Returned (PyStr ''Input validation failed for tool T'')"
    using execute_safely_contains_exceptions
      [where tool_func = double and tool_name = "''T''" and env = env0
         and world = "0::nat", OF ri ci]
    by (simp add: validate_import)
  moreover have "fst (execute_safely sleeper ''T'' [] [] env0 (init True, 0))
     = Returned (PyStr ''Tool T execution failed: Tool execution timed out after 30 seconds'')"
    using execute_safely_contains_exceptions
      [where tool_func = sleeper and tool_name = "''T''" and env = env0
         and world = "0::nat", OF r0 cs]
    by (simp add: validate_none signal_setup_init sleeper_def max_execution_time_init py_str_int_30)
  moreover have "fst (execute_safely double ''Double'' [PyInt 5] [] env0 (init True, 0))
     = Returned (PyInt 10)"
    using execute_safely_contains_exceptions
      [where tool_func = double and tool_name = "''Double''" and env = env0
         and world = "0::nat" and v = "PyInt 10" and s = "''10''", OF r5 cd]
    by (simp add: validate_five signal_setup_init double_def py_str_int_10)
  ultimately show ?thesis by simp
qed

text \<open>
  C1 as stated fails, in three ways. \<^verbatim>\<open>except Exception\<close> does not catch
  \<^verbatim>\<open>KeyboardInterrupt\<close>, so a callable during which it is raised makes
  \<^verbatim>\<open>execute_safely\<close> raise it. The handler evaluates \<^verbatim>\<open>str(e)\<close> under no \<^verbatim>\<open>try\<close>, so
  a callable that raises an exception whose \<^verbatim>\<open>__str__\<close> raises makes \<^verbatim>\<open>execute_safely\<close>
  raise that second fault, and nothing is recorded. And a callable that never returns
  (the \<^verbatim>\<open>TimeoutError\<close> of the alarm is raised once, and the callable may catch it) keeps
  \<^verbatim>\<open>execute_safely\<close> from returning.
\<close>

theorem execute_safely_is_not_total:
  "execute_safely interrupted ''T'' [] [] env0 (init False, 0)
     = (Raised (base_exception ''KeyboardInterrupt''), init False, 1)
   \<and> execute_safely mute ''T'' [] [] env0 (init False, 0)
     = (Raised (exception ''no description''), init False, 1)
   \<and> execute_safely stubborn ''T'' [] [] env0 (init False, 0) = (Hangs, init False, 1)"
  by code_simp

text \<open>
  C2 at a call with eleven positional arguments, the first an object whose \<^verbatim>\<open>__repr__\<close>
  raises, on a wrapper with a logger: \<^verbatim>\<open>_log_execution_start\<close> renders the arguments
  before the \<^verbatim>\<open>try\<close> is entered, and the fault leaves \<^verbatim>\<open>execute_safely\<close> where an
  error string was to be returned. The callable is not invoked.
\<close>

theorem eleven_arguments_with_logging:
  "length (unprintable # replicate 10 (PyInt 1)) = 11
   \<and> execute_safely double ''T'' (unprintable # replicate 10 (PyInt 1)) [] env0 (init True, 0)
     = (Raised (exception ''no repr''), (init True)\<lparr> log_lines := [INFO] \<rparr>, 0)"
  by code_simp

text \<open>
  C3, as the code has it. A call for which input validation answers \<^verbatim>\<open>False\<close> appends
  nothing to the ledger, and neither does one whose validation lets out a fault outside
  class \<^verbatim>\<open>Exception\<close>. Any other call, one that passes validation or one whose validation
  lets out a fault, appends exactly one record when it returns (a value or an error
  string), the oldest record leaving a ledger that would exceed 1000; it appends nothing
  when a fault leaves it or when it does not return.
\<close>

theorem execute_safely_records:
  "(fst (validate_input tool_name args kw w) = Inr False \<longrightarrow>
      execution_history (fst (snd (execute_safely tool_func tool_name args kw env (w, world))))
        = execution_history w)
   \<and> (fst (validate_input tool_name args kw w) = Inl e \<and> \<not> is_Exception e \<longrightarrow>
      execution_history (fst (snd (execute_safely tool_func tool_name args kw env (w, world))))
        = execution_history w)
   \<and> (fst (validate_input tool_name args kw w) \<noteq> Inr False \<longrightarrow>
      (case fst (execute_safely tool_func tool_name args kw env (w, world)) of
         Returned v \<Rightarrow>
           \<exists>r. execution_history
                  (fst (snd (execute_safely tool_func tool_name args kw env (w, world))))
                = drop (Suc (length (execution_history w)) - 1000) (execution_history w @ [r])
       | Raised x \<Rightarrow>
           execution_history (fst (snd (execute_safely tool_func tool_name args kw env (w, world))))
             = execution_history w
       | Hangs \<Rightarrow>
           execution_history (fst (snd (execute_safely tool_func tool_name args kw env (w, world))))
             = execution_history w))"
proof -
  have a: "fst (validate_input tool_name args kw w) = Inr False \<longrightarrow>
      execution_history (fst (snd (execute_safely tool_func tool_name args kw env (w, world))))
        = execution_history w"
    by (simp add: execute_history_rejected)
  have b: "fst (validate_input tool_name args kw w) = Inl e \<and> \<not> is_Exception e \<longrightarrow>
      execution_history (fst (snd (execute_safely tool_func tool_name args kw env (w, world))))
        = execution_history w"
    by (simp add: execute_history_base_fault)
  have c: "fst (validate_input tool_name args kw w) \<noteq> Inr False \<longrightarrow>
      (case fst (execute_safely tool_func tool_name args kw env (w, world)) of
         Returned v \<Rightarrow>
           \<exists>r. execution_history
                  (fst (snd (execute_safely tool_func tool_name args kw env (w, world))))
                = drop (Suc (length (execution_history w)) - 1000) (execution_history w @ [r])
       | Raised x \<Rightarrow>
           execution_history (fst (snd (execute_safely tool_func tool_name args kw env (w, world))))
             = execution_history w
       | Hangs \<Rightarrow>
           execution_history (fst (snd (execute_safely tool_func tool_name args kw env (w, world))))
             = execution_history w)"
    using execute_history_other [where n = tool_name and a = args and k = kw and w = w
        and t = tool_func and env = env and world = world, unfolded appended_def]
    by (rule impI)
  from a b c show ?thesis by (intro conjI)
qed

theorem execute_safely_records_witness:
  "execution_history
     (fst (snd (execute_safely double ''Double'' [PyStr ''import os''] [] env0 (init False, 0))))
     = []
   \<and> length (execution_history
        (fst (snd (execute_safely double ''Double'' [PyInt 5] [] env0 (init False, 0))))) = 1"
proof -
  have "execution_history
     (fst (snd (execute_safely double ''Double'' [PyStr ''import os''] [] env0 (init False, 0))))
     = []"
    using execute_safely_records
      [where tool_name = "''Double''" and args = "[PyStr ''import os'']" and kw = "[]"
         and w = "init False" and tool_func = double and env = env0 and world = "0::nat"]
    by (simp add: validate_import history_init)
  moreover have "length (execution_history
        (fst (snd (execute_safely double ''Double'' [PyInt 5] [] env0 (init False, 0))))) = 1"
    using execute_safely_records
      [where tool_name = "''Double''" and args = "[PyInt 5]" and kw = "[]"
         and w = "init False" and tool_func = double and env = env0 and world = "0::nat"]
    by (auto simp: validate_five double_five history_init)
  ultimately show ?thesis by simp
qed

text \<open>
  C3 as stated fails: a call with eleven positional arguments is rejected by input
  validation and no record is appended for it.
\<close>

theorem rejected_call_is_not_recorded:
  "fst (execute_safely double ''Double'' (replicate 11 (PyInt 1)) [] env0 (init False, 0))
     = Returned (PyStr ''Input validation failed for tool Double'')
   \<and> execution_history
       (fst (snd (execute_safely double ''Double'' (replicate 11 (PyInt 1)) [] env0
                    (init False, 0)))) = []"
  by code_simp

text \<open>
  C4, as the code has it. Take a call that passes validation, made on the main thread
  with a deadline that fits a C \<^verbatim>\<open>int\<close>, so that the alarm is set, and whose callable
  returns a value \<open>v\<close> that the logger, if there is one, can format and that \<^verbatim>\<open>str\<close>
  renders to \<open>s\<close>. Then \<^verbatim>\<open>execute_safely\<close> returns \<open>v\<close> and appends exactly one record,
  with \<^verbatim>\<open>success = True\<close> and the first 1000 characters of \<open>s\<close> as its result.
\<close>

theorem execute_safely_success:
  assumes "fst (validate_input tool_name args kw w) = Inr True"
    and "signal_setup env w = None"
    and "fst (tool_func args kw world) = Returns v"
    and "logger w \<longrightarrow> (\<exists>f. py_format v = Inr f)"
    and "py_str v = Inr s"
  shows "fst (execute_safely tool_func tool_name args kw env (w, world)) = Returned v
     \<and> execution_history (fst (snd (execute_safely tool_func tool_name args kw env (w, world))))
        = drop (Suc (length (execution_history w)) - 1000)
            (execution_history w @
             [\<lparr> er_id = tool_name @ ''_'' @ py_str_int (py_int (time_time env 0)),
                er_tool_name = tool_name, er_success = True,
                er_execution_time = time_time env 1 - time_time env 0,
                er_timestamp = time_time env 2,
                er_result = take 1000 s \<rparr>])
     \<and> length (take 1000 s) \<le> 1000"
  using execute_returns_ok [where t = tool_func and world = world and env = env, OF assms]
  by (simp add: appended_unfold execution_id_of_def del: One_nat_def)

theorem execute_safely_success_witness:
  "execute_safely double ''Double'' [PyInt 5] [] env0 (init True, 0)
     = (Returned (PyInt 10),
        (init True)\<lparr> execution_history :=
           [\<lparr> er_id = ''Double_100'', er_tool_name = ''Double'', er_success = True,
              er_execution_time = 1 / 2, er_timestamp = 101, er_result = ''10'' \<rparr>],
           log_lines := [INFO, DEBUG, INFO, DEBUG] \<rparr>, 1)
   \<and> fst (execute_safely double ''Double'' [PyInt 5] [] env0 (init True, 0)) = Returned (PyInt 10)
   \<and> execution_history (fst (snd (execute_safely double ''Double'' [PyInt 5] [] env0 (init True, 0))))
     = [\<lparr> er_id = ''Double_100'', er_tool_name = ''Double'', er_success = True,
          er_execution_time = 1 / 2, er_timestamp = 101, er_result = ''10'' \<rparr>]"
proof -
  have a: "fst (double [PyInt 5] [] 0) = Returns (PyInt 10)"
    by (simp add: double_def)
  have f: "logger (init True) \<longrightarrow> (\<exists>f. py_format (PyInt 10) = Inr f)"
    by simp
  have b: "py_str (PyInt 10) = Inr ''10''"
    by (simp add: py_str_int_10)
  have "fst (execute_safely double ''Double'' [PyInt 5] [] env0 (init True, 0)) = Returned (PyInt 10)
   \<and> execution_history (fst (snd (execute_safely double ''Double'' [PyInt 5] [] env0 (init True, 0))))
     = [\<lparr> er_id = ''Double_100'', er_tool_name = ''Double'', er_success = True,
          er_execution_time = 1 / 2, er_timestamp = 101, er_result = ''10'' \<rparr>]"
    using execute_safely_success [where env = env0 and tool_name = "''Double''"
        and w = "init True" and tool_func = double and world = "0::nat"
        and args = "[PyInt 5]" and kw = "[]", OF validate_five signal_setup_init a f b]
    by (simp add: history_init py_int_def py_str_int_100 time_time_env0)
  moreover have "execute_safely double ''Double'' [PyInt 5] [] env0 (init True, 0)
     = (Returned (PyInt 10),
        (init True)\<lparr> execution_history :=
           [\<lparr> er_id = ''Double_100'', er_tool_name = ''Double'', er_success = True,
              er_execution_time = 1 / 2, er_timestamp = 101, er_result = ''10'' \<rparr>],
           log_lines := [INFO, DEBUG, INFO, DEBUG] \<rparr>, 1)"
    by code_simp
  ultimately show ?thesis by simp
qed

text \<open>
  C4 as stated fails when the value returned cannot be rendered: the callable returns
  normally an object whose \<^verbatim>\<open>__str__\<close> raises, \<^verbatim>\<open>_record_execution\<close> raises on
  \<^verbatim>\<open>str(result)\<close> inside the \<^verbatim>\<open>try\<close>, and the call ends as a failure with an error string.
\<close>

theorem unrenderable_result_is_a_failure:
  "fst (opaque [] [] 0) = Returns unprintable
   \<and> fst (validate_input ''T'' [] [] (init False)) = Inr True
   \<and> fst (execute_safely opaque ''T'' [] [] env0 (init False, 0))
       = Returned (PyStr ''Tool T execution failed: no str'')
   \<and> fst (execute_safely opaque ''T'' [] [] env0 (init False, 0)) \<noteq> Returned unprintable
   \<and> map er_success
        (execution_history (fst (snd (execute_safely opaque ''T'' [] [] env0 (init False, 0)))))
       = [False]"
  by code_simp

text \<open>
  C6. After any sequence of operations on a new wrapper the ledger has at most 1000
  records. Recording the attempts \<open>xs\<close> one after the other on a new wrapper leaves the
  last \<open>min (length xs) 1000\<close> of their records, in the order of insertion: all of them
  up to 1000 attempts, the 1000 most recent ones beyond (the last 1000 of 1500).
\<close>

theorem ledger_bounded_fifo:
  "length (execution_history (fst (run ops (init l, world)))) \<le> 1000
   \<and> execution_history (fold record_attempt xs (init l))
       = drop (length xs - 1000) (map record_of_attempt xs)
   \<and> length (execution_history (fold record_attempt xs (init l))) = min (length xs) 1000"
proof -
  have "length (execution_history (fst (run ops (init l, world)))) \<le> 1000"
    by (rule run_length) (simp add: history_init)
  moreover have f: "execution_history (fold record_attempt xs (init l))
       = drop (length xs - 1000) (map record_of_attempt xs)"
    using fold_record_attempt [of "init l" xs] by (simp add: history_init)
  moreover have "length (execution_history (fold record_attempt xs (init l)))
       = min (length xs) 1000"
    unfolding f by simp
  ultimately show ?thesis by simp
qed

text \<open>
  C7, as the code has it. On an empty ledger \<^verbatim>\<open>get_execution_stats\<close> returns the dict
  with the single entry \<^verbatim>\<open>total_executions = 0\<close>: it has no success rate. On a ledger
  that is not empty it returns the total count, the count of successes, the count of
  failures (the total less the successes), the success rate successes / total, the sum
  of the durations and their average, sum / total.
\<close>

theorem get_execution_stats_aggregate:
  "(execution_history w = [] \<longrightarrow> get_execution_stats w = [(''total_executions'', NInt 0)])
   \<and> (execution_history w \<noteq> [] \<longrightarrow>
        map_of (get_execution_stats w) ''total_executions''
          = Some (NInt (int (length (execution_history w))))
      \<and> map_of (get_execution_stats w) ''successful_executions''
          = Some (NInt (int (length (filter er_success (execution_history w)))))
      \<and> map_of (get_execution_stats w) ''failed_executions''
          = Some (NInt (int (length (execution_history w))
                        - int (length (filter er_success (execution_history w)))))
      \<and> map_of (get_execution_stats w) ''success_rate''
          = Some (NFloat (of_nat (length (filter er_success (execution_history w)))
                          / of_nat (length (execution_history w))))
      \<and> map_of (get_execution_stats w) ''total_execution_time''
          = Some (NFloat (sum_list (map er_execution_time (execution_history w))))
      \<and> map_of (get_execution_stats w) ''average_execution_time''
          = Some (NFloat (sum_list (map er_execution_time (execution_history w))
                          / of_nat (length (execution_history w)))))"
proof -
  have len: "int (length (filter (\<lambda>e. \<not> er_success e) h))
      = int (length h) - int (length (filter er_success h))" for h :: "execution_record list"
    using sum_length_filter_compl [of er_success h] by simp
  show ?thesis
    by (simp add: get_execution_stats_def Let_def len)
qed

theorem get_execution_stats_aggregate_witness:
  "get_execution_stats (init True) = [(''total_executions'', NInt 0)]
   \<and> map_of (get_execution_stats
        ((init True)\<lparr> execution_history :=
            [sample_record ''a'', (sample_record ''b'')\<lparr> er_success := False \<rparr>] \<rparr>))
        ''success_rate'' = Some (NFloat (1 / 2))"
proof -
  have "get_execution_stats (init True) = [(''total_executions'', NInt 0)]"
    using get_execution_stats_aggregate [of "init True"] by (simp add: init_def)
  moreover have "map_of (get_execution_stats
        ((init True)\<lparr> execution_history :=
            [sample_record ''a'', (sample_record ''b'')\<lparr> er_success := False \<rparr>] \<rparr>))
        ''success_rate'' = Some (NFloat (1 / 2))"
    using get_execution_stats_aggregate
      [of "(init True)\<lparr> execution_history :=
            [sample_record ''a'', (sample_record ''b'')\<lparr> er_success := False \<rparr>] \<rparr>"]
    by (simp add: sample_record_def)
  ultimately show ?thesis by simp
qed

text \<open>
  C7 as stated fails on the empty ledger: the dict returned there has no
  \<^verbatim>\<open>success_rate\<close> entry, so the rate is not reported as 0.
\<close>

theorem get_execution_stats_empty_has_no_rate:
  "map_of (get_execution_stats (init True)) ''success_rate'' = None
   \<and> map_of (get_execution_stats (init True)) ''success_rate'' \<noteq> Some (NInt 0)
   \<and> map_of (get_execution_stats (init True)) ''success_rate'' \<noteq> Some (NFloat 0)"
  by (simp add: get_execution_stats_def init_def)

text \<open>
  C8 at the limit 0, on a ledger of two records: \<^verbatim>\<open>execution_history[-0:]\<close> is the whole
  ledger, so both records are returned, where the last \<open>min 0 2 = 0\<close> records are none.
\<close>

theorem get_recent_executions_limit_zero:
  "get_recent_executions 0
     ((init True)\<lparr> execution_history := [sample_record ''a'', sample_record ''b''] \<rparr>)
     = [sample_record ''a'', sample_record ''b'']"
  by (simp add: get_recent_executions_def py_slice_from_def)

text \<open>
  C9. \<^verbatim>\<open>set_max_execution_time\<close> stores \<open>max 1 s\<close>, which is 1 for \<open>s\<close> below 1 and \<open>s\<close>
  itself otherwise; \<^verbatim>\<open>set_max_memory_usage\<close> stores \<open>max 1024 b\<close>, which is 1024 for \<open>b\<close>
  below 1024 and \<open>b\<close> itself otherwise. Neither rejects a value.
\<close>

theorem setters_clamp:
  "max_execution_time (set_max_execution_time s w) = max 1 s
   \<and> max_execution_time (set_max_execution_time s w) = (if s < 1 then 1 else s)
   \<and> max_memory_usage (set_max_memory_usage b w) = max 1024 b
   \<and> max_memory_usage (set_max_memory_usage b w) = (if b < 1024 then 1024 else b)"
  by (simp add: set_max_execution_time_def set_max_memory_usage_def max_def)




end
